theory Spec2Isabelle
  imports Main "HOL-Library.Char_ord" "HOL-Library.List_Lexorder" "HOL-Library.Sublist"
begin

section \<open>The Supabase setup script (scripts/setup-supabase.py)\<close>

text \<open>
  The script is one straight-line module: it reads two values from the environment,
  derives connection parameters, probes the database, runs every \<open>*.sql\<close> file of a fixed
  directory, checks three tables and prints a summary. Everything it touches outside
  itself (the file system, the process environment, \<open>urlparse\<close>, the database driver) is
  collected in a record \<open>world\<close> that answers each external call. What the script does is
  a list of events: every \<open>print\<close>, every file it opens and every driver call, in order,
  together with the exit status of the process.

  Python strings are modelled as \<open>string\<close>. The four glyphs of the log helpers lie outside
  ASCII and are written as their UTF-8 bytes, the form in which they reach the terminal.
\<close>

subsection \<open>Colours and the log helpers\<close>

definition RED :: string where "RED = CHR 0x1B # ''[91m''"
definition GREEN :: string where "GREEN = CHR 0x1B # ''[92m''"
definition YELLOW :: string where "YELLOW = CHR 0x1B # ''[93m''"
definition BLUE :: string where "BLUE = CHR 0x1B # ''[94m''"
definition RESET :: string where "RESET = CHR 0x1B # ''[0m''"

text \<open>A line feed inside a printed string (\<open>print\<close> adds its own at the end of each call).\<close>

definition NL :: string where "NL = [CHR 0x0A]"

definition log_error :: "string \<Rightarrow> string" where
  "log_error msg = RED @ [CHR 0xE2, CHR 0x9C, CHR 0x97] @ '' '' @ msg @ RESET"

definition log_success :: "string \<Rightarrow> string" where
  "log_success msg = GREEN @ [CHR 0xE2, CHR 0x9C, CHR 0x93] @ '' '' @ msg @ RESET"

definition log_info :: "string \<Rightarrow> string" where
  "log_info msg = BLUE @ [CHR 0xE2, CHR 0x86, CHR 0x92] @ '' '' @ msg @ RESET"

definition log_warning :: "string \<Rightarrow> string" where
  "log_warning msg = YELLOW @ [CHR 0xE2, CHR 0x9A, CHR 0xA0] @ '' '' @ msg @ RESET"

subsection \<open>Events, connection parameters and the outside world\<close>

record conn_params =
  host :: string
  port :: nat
  database :: string
  user :: string
  password :: string
  sslmode :: string

text \<open>
  \<open>Print s\<close> is one call of \<open>print\<close> with the text \<open>s\<close>; \<open>ReadFile n\<close> is the \<open>open\<close> of the
  migration file named \<open>n\<close>; \<open>Connect p\<close> is a call of \<open>psycopg2.connect\<close>; \<open>Execute q args\<close>
  is \<open>cur.execute\<close>; \<open>Commit\<close> and \<open>Close\<close> are \<open>conn.commit()\<close> and \<open>conn.close()\<close>.
\<close>

datatype event =
    Print string
  | ReadFile string
  | Connect conn_params
  | Execute string "string list"
  | Commit
  | Close

text \<open>The value of \<open>urlparse(url).hostname\<close>: the call raises, or the attribute is
  \<open>None\<close>, or it is a host name.\<close>

datatype parse_result = ParseRaises | Hostname "string option"

text \<open>
  The answers of the outside world. A driver call either succeeds (\<open>None\<close>) or raises
  \<open>psycopg2.Error\<close> with a message (\<open>Some msg\<close>), the base class of every error the
  driver raises; exceptions of other classes at these calls are in the record \<open>escapes\<close>,
  below. Reading a migration file either gives its text (\<open>Inr sql\<close>) or raises an
  exception that is not a driver error (\<open>Inl msg\<close>). \<open>table_exists\<close> is the state of the
  schema \<open>public\<close> when the script verifies it.
\<close>

record world =
  env_file_exists :: bool
  getenv_url :: "string option"
  getenv_key :: "string option"
  urlparse_hostname :: "string \<Rightarrow> parse_result"
  probe_connect :: "string option"
  migration_dir :: "string list option"
  read_file :: "string \<Rightarrow> string + string"
  migration_connect :: "string \<Rightarrow> string option"
  migration_execute :: "string \<Rightarrow> string option"
  migration_commit :: "string \<Rightarrow> string option"
  verify_connect :: "string option"
  verify_query :: "string \<Rightarrow> string option"
  table_exists :: "string \<Rightarrow> bool"

record result =
  trace :: "event list"
  exit_code :: nat

subsection \<open>String helpers of the Python runtime\<close>

text \<open>\<open>s.split(c)\<close> for a one-character separator: the pieces between the separators,
  never an empty list.\<close>

fun split_on :: "char \<Rightarrow> string \<Rightarrow> string list" where
  "split_on c [] = [[]]"
| "split_on c (x # xs) =
     (if x = c then [] # split_on c xs
      else (case split_on c xs of [] \<Rightarrow> [[x]] | y # ys \<Rightarrow> (x # y) # ys))"

text \<open>\<open>sep.join(xs)\<close>.\<close>

fun join :: "string \<Rightarrow> string list \<Rightarrow> string" where
  "join sep [] = []"
| "join sep [x] = x"
| "join sep (x # y # ys) = x @ sep @ join sep (y # ys)"

text \<open>\<open>str(n)\<close> for a natural number.\<close>

definition digit_char :: "nat \<Rightarrow> char" where
  "digit_char d = char_of (48 + d)"

fun str_nat :: "nat \<Rightarrow> string" where
  "str_nat n = (if n < 10 then [digit_char n] else str_nat (n div 10) @ [digit_char (n mod 10)])"

text \<open>Truthiness of an optional string: \<open>None\<close> and the empty string are false.\<close>

definition truthy :: "string option \<Rightarrow> bool" where
  "truthy v = (case v of None \<Rightarrow> False | Some s \<Rightarrow> s \<noteq> [])"

text \<open>The pattern \<open>*.sql\<close> of \<open>Path.glob\<close>: the name ends in \<open>.sql\<close>.\<close>

definition glob_sql :: "string \<Rightarrow> bool" where
  "glob_sql name = (4 \<le> length name \<and> drop (length name - 4) name = ''.sql'')"

subsection \<open>Deriving the project reference and the connection parameters\<close>

datatype py_exception = ValueError | AttributeError | IndexError

text \<open>
  The body of the first \<open>try\<close>: \<open>urlparse(supabase_url)\<close>, then \<open>.hostname.split('.')[0]\<close>.
  A hostname of \<open>None\<close> has no \<open>split\<close> (AttributeError); \<open>[0]\<close> of an empty list would be
  an IndexError.
\<close>

definition extract_project_ref :: "world \<Rightarrow> string \<Rightarrow> py_exception + string" where
  "extract_project_ref w supabase_url =
     (case urlparse_hostname w supabase_url of
        ParseRaises \<Rightarrow> Inl ValueError
      | Hostname None \<Rightarrow> Inl AttributeError
      | Hostname (Some hostname) \<Rightarrow>
          (case split_on (CHR ''.'') hostname of
             [] \<Rightarrow> Inl IndexError
           | label # _ \<Rightarrow> Inr label))"

text \<open>\<open>db_host\<close>, \<open>db_port\<close>, \<open>db_name\<close>, \<open>db_user\<close>, \<open>db_password\<close> and the constant
  \<open>sslmode\<close>, as every \<open>psycopg2.connect\<close> of the script passes them.\<close>

definition db_params :: "string \<Rightarrow> string \<Rightarrow> conn_params" where
  "db_params project_ref service_role_key =
     \<lparr>host = ''aws-0-us-west-1.pooler.supabase.com'',
      port = 6543,
      database = ''postgres'',
      user = ''postgres.'' @ project_ref,
      password = service_role_key,
      sslmode = ''require''\<rparr>"

subsection \<open>Running the migrations\<close>

text \<open>
  One pass of the loop body for the file \<open>filename\<close>: the events it adds and whether the
  file failed. The first handler catches \<open>psycopg2.Error\<close>, the second every other
  exception; both append the name to \<open>failed_migrations\<close> and go on. On a failure after
  the connection is open the connection is not closed.
\<close>

definition run_migration :: "world \<Rightarrow> conn_params \<Rightarrow> string \<Rightarrow> event list \<times> bool" where
  "run_migration w p filename =
     (let start = [Print (log_info (''Running migration: '' @ filename)), ReadFile filename];
          db_failed = (\<lambda>e. Print (log_error (filename @ '' failed: '' @ e @ NL)))
      in case read_file w filename of
           Inl e \<Rightarrow>
             (start @ [Print (log_error (filename @ '' failed with unexpected error: '' @ e @ NL))],
              True)
         | Inr sql \<Rightarrow>
             (case migration_connect w filename of
                Some e \<Rightarrow> (start @ [Connect p, db_failed e], True)
              | None \<Rightarrow>
                  (case migration_execute w filename of
                     Some e \<Rightarrow> (start @ [Connect p, Execute sql [], db_failed e], True)
                   | None \<Rightarrow>
                       (case migration_commit w filename of
                          Some e \<Rightarrow>
                            (start @ [Connect p, Execute sql [], Commit, db_failed e], True)
                        | None \<Rightarrow>
                            (start @ [Connect p, Execute sql [], Commit, Close,
                                      Print (log_success (filename @ '' completed successfully'' @ NL))],
                             False)))))"

text \<open>The loop over \<open>migration_files\<close>; the state is the events so far and the list
  \<open>failed_migrations\<close>.\<close>

fun run_migrations ::
  "world \<Rightarrow> conn_params \<Rightarrow> string list \<Rightarrow> event list \<times> string list \<Rightarrow> event list \<times> string list"
where
  "run_migrations w p [] st = st"
| "run_migrations w p (filename # rest) (t, failed_migrations) =
     (case run_migration w p filename of
        (ev, bad) \<Rightarrow>
          run_migrations w p rest
            (t @ ev, if bad then failed_migrations @ [filename] else failed_migrations))"

subsection \<open>Verifying the tables\<close>

definition tables_to_check :: "string list" where
  "tables_to_check = [''users'', ''articles'', ''workers'']"

definition exists_query :: string where
  "exists_query =
     NL @ ''                SELECT EXISTS ('' @ NL @
     ''                    SELECT FROM information_schema.tables '' @ NL @
     ''                    WHERE table_schema = '' @ [CHR 0x27] @ ''public'' @ [CHR 0x27] @ '' '' @ NL @
     ''                    AND table_name = %s'' @ NL @
     ''                );'' @ NL @
     ''            ''"

text \<open>
  The loop over \<open>tables_to_check\<close>. The state is the events so far and the list
  \<open>missing_tables\<close>; the second component of the result is the driver error that ended the
  loop early, if one did. What was appended to \<open>missing_tables\<close> before the error stays.
\<close>

fun check_tables ::
  "world \<Rightarrow> string list \<Rightarrow> event list \<times> string list \<Rightarrow> (event list \<times> string list) \<times> string option"
where
  "check_tables w [] st = (st, None)"
| "check_tables w (table # rest) (t, missing_tables) =
     (case verify_query w table of
        Some e \<Rightarrow> ((t @ [Execute exists_query [table]], missing_tables), Some e)
      | None \<Rightarrow>
          (if table_exists w table
           then check_tables w rest
                  (t @ [Execute exists_query [table],
                        Print (log_success (''Table '' @ [CHR 0x27] @ table @ [CHR 0x27] @ '' exists''))],
                   missing_tables)
           else check_tables w rest
                  (t @ [Execute exists_query [table],
                        Print (log_error (''Table '' @ [CHR 0x27] @ table @ [CHR 0x27] @ '' not found''))],
                   missing_tables @ [table])))"

text \<open>The \<open>try\<close> around the verification: a driver error is logged and nothing else
  happens; the result is the events and \<open>missing_tables\<close> as it stands.\<close>

definition verify_tables :: "world \<Rightarrow> conn_params \<Rightarrow> event list \<times> string list" where
  "verify_tables w p =
     (case verify_connect w of
        Some e \<Rightarrow> ([Connect p, Print (log_error (''Error checking tables: '' @ e))], [])
      | None \<Rightarrow>
          (case check_tables w tables_to_check ([Connect p], []) of
             ((t, missing_tables), Some e) \<Rightarrow>
               (t @ [Print (log_error (''Error checking tables: '' @ e))], missing_tables)
           | ((t, missing_tables), None) \<Rightarrow> (t @ [Close], missing_tables)))"

subsection \<open>The final summary\<close>

definition success_banner :: string where
  "success_banner = GREEN @ ''=== Database setup completed successfully! ==='' @ RESET @ NL"

definition error_banner :: string where
  "error_banner = RED @ ''=== Setup completed with errors ==='' @ RESET @ NL"

definition failed_line :: "string list \<Rightarrow> string" where
  "failed_line failed_migrations = ''Failed migrations: '' @ join '', '' failed_migrations"

definition missing_line :: "string list \<Rightarrow> string" where
  "missing_line missing_tables = ''Missing tables: '' @ join '', '' missing_tables"

text \<open>The lines the last block prints, one per \<open>print\<close>.\<close>

definition final_summary :: "string list \<Rightarrow> string list \<Rightarrow> string list" where
  "final_summary missing_tables failed_migrations =
     (if missing_tables = [] \<and> failed_migrations = [] then
        [success_banner,
         ''You can now:'',
         ''  1. Register new users at http://localhost:3000/login'',
         ''  2. Create and manage articles'',
         ''  3. Track user activity'']
      else
        [error_banner]
        @ (if failed_migrations \<noteq> [] then
             [failed_line failed_migrations, ''Please check the errors above and fix them.'']
           else [])
        @ (if missing_tables \<noteq> [] then
             [missing_line missing_tables, ''You may need to run the failed migrations manually.'']
           else [])
        @ [NL @ ''You can run migrations manually in the Supabase SQL Editor.''])"

subsection \<open>The script\<close>

text \<open>From the line that reports the number of migration files to the end of the
  script.\<close>

definition run_and_report :: "world \<Rightarrow> conn_params \<Rightarrow> string list \<Rightarrow> event list" where
  "run_and_report w p migration_files =
     (case run_migrations w p migration_files ([], []) of
        (t1, failed_migrations) \<Rightarrow>
          (case verify_tables w p of
             (t2, missing_tables) \<Rightarrow>
               [Print (log_info (''Found '' @ str_nat (length migration_files) @ '' migration files'' @ NL))]
               @ t1
               @ [Print (NL @ YELLOW @ ''Verifying database setup...'' @ RESET @ NL)]
               @ t2
               @ [Print []]
               @ map Print (final_summary missing_tables failed_migrations)))"

definition title_banner :: string where
  "title_banner = GREEN @ ''=== Supabase Database Setup (Python) ==='' @ RESET @ NL"

definition missing_variables :: "event list" where
  "missing_variables =
     [Print (log_error ''Missing required environment variables!''),
      Print ''Please ensure the following are set in .env.local:'',
      Print ''  - NEXT_PUBLIC_SUPABASE_URL'',
      Print ''  - SUPABASE_SERVICE_ROLE_KEY'']"

text \<open>The events up to and including the probe's \<open>psycopg2.connect\<close>.\<close>

definition before_probe :: "string \<Rightarrow> string \<Rightarrow> conn_params \<Rightarrow> event list" where
  "before_probe project_ref supabase_url p =
     [Print title_banner,
      Print (log_info (''Project Reference: '' @ project_ref)),
      Print (log_info (''Supabase URL: '' @ supabase_url @ NL)),
      Print (log_info ''Testing database connection...''),
      Connect p]"

definition after_probe :: "event list" where
  "after_probe = [Close, Print (log_success (''Successfully connected to Supabase database'' @ NL))]"

text \<open>
  The module, top to bottom, in a run in which no exception escapes a handler (the
  process with such exceptions is \<open>run\<close>, below). \<open>sys.exit(1)\<close> ends the run with
  status 1; reaching the end of the module ends it with status 0.
\<close>

definition script :: "world \<Rightarrow> result" where
  "script w =
     (if \<not> env_file_exists w then
        \<lparr>trace = [Print title_banner,
                  Print (log_error ''.env.local file not found!''),
                  Print ''Please create .env.local with your Supabase credentials''],
         exit_code = 1\<rparr>
      else if \<not> truthy (getenv_url w) \<or> \<not> truthy (getenv_key w) then
        \<lparr>trace = Print title_banner # missing_variables, exit_code = 1\<rparr>
      else
        (case (getenv_url w, getenv_key w) of
           (Some supabase_url, Some service_role_key) \<Rightarrow>
             (case extract_project_ref w supabase_url of
                Inl _ \<Rightarrow>
                  \<lparr>trace = [Print title_banner,
                            Print (log_error ''Could not parse Supabase URL''),
                            Print ''URL should be in format: https://yourproject.supabase.co''],
                   exit_code = 1\<rparr>
              | Inr project_ref \<Rightarrow>
                  (let p = db_params project_ref service_role_key;
                       t1 = before_probe project_ref supabase_url p
                   in case probe_connect w of
                        Some e \<Rightarrow>
                          \<lparr>trace = t1 @
                             [Print (log_error (''Could not connect to database: '' @ e)),
                              Print (NL @ ''Please check your credentials and try again.''),
                              Print (''Note: Make sure you'' @ [CHR 0x27] @
                                     ''re using the SERVICE_ROLE_KEY, not the ANON_KEY'')],
                           exit_code = 1\<rparr>
                      | None \<Rightarrow>
                          (case migration_dir w of
                             None \<Rightarrow>
                               \<lparr>trace = t1 @ after_probe @
                                  [Print (log_error ''Migration directory not found: supabase/migrations'')],
                                exit_code = 1\<rparr>
                           | Some entries \<Rightarrow>
                               (let migration_files = sort (filter glob_sql entries)
                                in if migration_files = [] then
                                     \<lparr>trace = t1 @ after_probe @
                                        [Print (log_error ''No SQL migration files found!'')],
                                      exit_code = 1\<rparr>
                                   else
                                     \<lparr>trace = t1 @ after_probe @ run_and_report w p migration_files,
                                      exit_code = 0\<rparr>))))
         | _ \<Rightarrow> \<lparr>trace = Print title_banner # missing_variables, exit_code = 1\<rparr>))"

section \<open>Observations of a run, example worlds\<close>

definition example_world :: world where
  "example_world =
     \<lparr>env_file_exists = True,
      getenv_url = Some ''https://abcxyz.supabase.co'',
      getenv_key = Some ''service-role-secret'',
      urlparse_hostname = (\<lambda>u. if u = ''https://abcxyz.supabase.co''
                                then Hostname (Some ''abcxyz.supabase.co'') else Hostname None),
      probe_connect = None,
      migration_dir = Some [''002_b.sql'', ''notes.txt'', ''001_a.sql''],
      read_file = (\<lambda>n. Inr (''-- '' @ n)),
      migration_connect = (\<lambda>n. None),
      migration_execute = (\<lambda>n. None),
      migration_commit = (\<lambda>n. None),
      verify_connect = None,
      verify_query = (\<lambda>t. None),
      table_exists = (\<lambda>t. True)\<rparr>"

definition connections :: "event list \<Rightarrow> conn_params list" where
  "connections t = concat (map (\<lambda>e. case e of Connect p \<Rightarrow> [p] | _ \<Rightarrow> []) t)"

definition attempted :: "event list \<Rightarrow> string list" where
  "attempted t = concat (map (\<lambda>e. case e of ReadFile n \<Rightarrow> [n] | _ \<Rightarrow> []) t)"

definition printed :: "event list \<Rightarrow> string list" where
  "printed t = concat (map (\<lambda>e. case e of Print s \<Rightarrow> [s] | _ \<Rightarrow> []) t)"

definition configured :: "world \<Rightarrow> string \<Rightarrow> string \<Rightarrow> string \<Rightarrow> bool" where
  "configured w url key project_ref \<longleftrightarrow>
     env_file_exists w \<and> getenv_url w = Some url \<and> url \<noteq> [] \<and>
     getenv_key w = Some key \<and> key \<noteq> [] \<and> extract_project_ref w url = Inr project_ref"

definition fatal_precondition_fails :: "world \<Rightarrow> bool" where
  "fatal_precondition_fails w \<longleftrightarrow>
     \<not> env_file_exists w \<or> \<not> truthy (getenv_url w) \<or> \<not> truthy (getenv_key w) \<or>
     (case getenv_url w of
        None \<Rightarrow> False
      | Some url \<Rightarrow> (case extract_project_ref w url of Inl _ \<Rightarrow> True | Inr _ \<Rightarrow> False)) \<or>
     probe_connect w \<noteq> None \<or>
     (case migration_dir w of None \<Rightarrow> True | Some entries \<Rightarrow> filter glob_sql entries = [])"

definition world_no_env_file :: world where
  "world_no_env_file = example_world\<lparr>env_file_exists := False\<rparr>"

definition world_no_key :: world where
  "world_no_key = example_world\<lparr>getenv_key := None\<rparr>"

definition world_schemeless_url :: world where
  "world_schemeless_url = example_world\<lparr>getenv_url := Some ''abcxyz.supabase.co''\<rparr>"

definition world_probe_fails :: world where
  "world_probe_fails = example_world\<lparr>probe_connect := Some ''password authentication failed''\<rparr>"

definition world_no_migration_dir :: world where
  "world_no_migration_dir = example_world\<lparr>migration_dir := None\<rparr>"

definition world_no_sql_files :: world where
  "world_no_sql_files = example_world\<lparr>migration_dir := Some [''notes.txt'']\<rparr>"

definition world_failed_and_missing :: world where
  "world_failed_and_missing =
     example_world\<lparr>migration_execute := (\<lambda>n. if n = ''002_b.sql'' then Some ''syntax error'' else None),
                   table_exists := (\<lambda>t. t = ''users'')\<rparr>"

definition migration_fails :: "world \<Rightarrow> string \<Rightarrow> bool" where
  "migration_fails w filename =
     (case read_file w filename of
        Inl _ \<Rightarrow> True
      | Inr _ \<Rightarrow> migration_connect w filename \<noteq> None \<or> migration_execute w filename \<noteq> None \<or>
                 migration_commit w filename \<noteq> None)"

definition reaches_migrations ::
  "world \<Rightarrow> string \<Rightarrow> string \<Rightarrow> string \<Rightarrow> string list \<Rightarrow> bool" where
  "reaches_migrations w url key project_ref entries \<longleftrightarrow>
     configured w url key project_ref \<and> probe_connect w = None \<and>
     migration_dir w = Some entries \<and> filter glob_sql entries \<noteq> []"

definition verifying_banner :: string where
  "verifying_banner = NL @ YELLOW @ ''Verifying database setup...'' @ RESET @ NL"

definition world_two_failures :: world where
  "world_two_failures =
     example_world\<lparr>migration_dir := Some [''003_c.sql'', ''001_a.sql'', ''002_b.sql''],
                   migration_execute := (\<lambda>n. if n = ''001_a.sql'' then Some ''syntax error'' else None),
                   read_file := (\<lambda>n. if n = ''002_b.sql'' then Inl ''Permission denied''
                                      else Inr (''-- '' @ n))\<rparr>"

definition example_params :: conn_params where
  "example_params = db_params ''abcxyz'' ''service-role-secret''"

definition is_log_line :: "string \<Rightarrow> bool" where
  "is_log_line s \<longleftrightarrow> (\<exists>x. s = log_info x \<or> s = log_error x \<or> s = log_success x)"

definition world_tables_exist_migration_failed :: world where
  "world_tables_exist_migration_failed =
     example_world\<lparr>migration_execute := (\<lambda>n. if n = ''002_b.sql'' then Some ''syntax error'' else None)\<rparr>"

definition world_verification_fails :: world where
  "world_verification_fails =
     example_world\<lparr>verify_connect := Some ''connection timed out'', table_exists := (\<lambda>t. False)\<rparr>"

subsection \<open>Exceptions that no handler catches\<close>

text \<open>
  The script has no handler around \<open>load_dotenv\<close>; the handlers of the probe and of the
  verification catch \<open>psycopg2.Error\<close> only; and the \<open>log_info\<close> that announces a migration
  file stands before the \<open>try\<close> of the loop body. An exception raised at one of these
  places ends the process with a traceback on the error stream and exit status 1. The
  record \<open>escapes\<close> says where one is raised: by \<open>load_dotenv\<close>, by the probe's
  \<open>psycopg2.connect\<close> (an exception that is not a driver error), by the print of a file
  name that the output stream cannot encode, by the verification's \<open>psycopg2.connect\<close> or
  by one of its queries (again not a driver error). Where \<open>escapes\<close> raises, the answer of
  \<open>world\<close> for that call is not used.
\<close>

record escapes =
  load_dotenv_raises :: "string option"
  probe_raises :: "string option"
  unprintable :: "string \<Rightarrow> bool"
  verify_connect_raises :: "string option"
  verify_query_raises :: "string \<Rightarrow> string option"

text \<open>How the loop over the tables ended: it ran through, a driver error ended it (the
  handler catches it), or another exception ended it (nothing catches it).\<close>

datatype loop_end = Completed | DriverError string | Escaped

text \<open>The migration loop, with the announcing print that may raise; the flag says that
  an exception escaped.\<close>

fun run_migrations_x ::
  "escapes \<Rightarrow> world \<Rightarrow> conn_params \<Rightarrow> string list \<Rightarrow> event list \<times> string list
     \<Rightarrow> (event list \<times> string list) \<times> bool"
where
  "run_migrations_x x w p [] st = (st, False)"
| "run_migrations_x x w p (filename # rest) (t, failed_migrations) =
     (if unprintable x filename then ((t, failed_migrations), True)
      else
        (case run_migration w p filename of
           (ev, bad) \<Rightarrow>
             run_migrations_x x w p rest
               (t @ ev, if bad then failed_migrations @ [filename] else failed_migrations)))"

text \<open>The loop over the tables and the \<open>try\<close> around it, with the exceptions its handler
  does not catch.\<close>

fun check_tables_x ::
  "escapes \<Rightarrow> world \<Rightarrow> string list \<Rightarrow> event list \<times> string list
     \<Rightarrow> (event list \<times> string list) \<times> loop_end"
where
  "check_tables_x x w [] st = (st, Completed)"
| "check_tables_x x w (table # rest) (t, missing_tables) =
     (case verify_query_raises x table of
        Some _ \<Rightarrow> ((t @ [Execute exists_query [table]], missing_tables), Escaped)
      | None \<Rightarrow>
          (case verify_query w table of
             Some e \<Rightarrow> ((t @ [Execute exists_query [table]], missing_tables), DriverError e)
           | None \<Rightarrow>
               (if table_exists w table
                then check_tables_x x w rest
                       (t @ [Execute exists_query [table],
                             Print (log_success (''Table '' @ [CHR 0x27] @ table @ [CHR 0x27] @ '' exists''))],
                        missing_tables)
                else check_tables_x x w rest
                       (t @ [Execute exists_query [table],
                             Print (log_error (''Table '' @ [CHR 0x27] @ table @ [CHR 0x27] @ '' not found''))],
                        missing_tables @ [table]))))"

definition verify_tables_x ::
  "escapes \<Rightarrow> world \<Rightarrow> conn_params \<Rightarrow> (event list \<times> string list) \<times> bool" where
  "verify_tables_x x w p =
     (case verify_connect_raises x of
        Some _ \<Rightarrow> (([Connect p], []), True)
      | None \<Rightarrow>
          (case verify_connect w of
             Some e \<Rightarrow> (([Connect p, Print (log_error (''Error checking tables: '' @ e))], []), False)
           | None \<Rightarrow>
               (case check_tables_x x w tables_to_check ([Connect p], []) of
                  ((t, missing_tables), Escaped) \<Rightarrow> ((t, missing_tables), True)
                | ((t, missing_tables), DriverError e) \<Rightarrow>
                    ((t @ [Print (log_error (''Error checking tables: '' @ e))], missing_tables), False)
                | ((t, missing_tables), Completed) \<Rightarrow> ((t @ [Close], missing_tables), False))))"

text \<open>From the report of the number of files to the end, with the exit status: 1 when an
  exception escaped, 0 at the end of the module.\<close>

definition run_and_report_x ::
  "escapes \<Rightarrow> world \<Rightarrow> conn_params \<Rightarrow> string list \<Rightarrow> event list \<times> nat" where
  "run_and_report_x x w p migration_files =
     (let found = Print (log_info (''Found '' @ str_nat (length migration_files) @
                                   '' migration files'' @ NL))
      in case run_migrations_x x w p migration_files ([], []) of
           ((t1, failed_migrations), True) \<Rightarrow> (found # t1, 1)
         | ((t1, failed_migrations), False) \<Rightarrow>
             (case verify_tables_x x w p of
                ((t2, missing_tables), True) \<Rightarrow>
                  (found # t1 @ [Print (NL @ YELLOW @ ''Verifying database setup...'' @ RESET @ NL)] @ t2,
                   1)
              | ((t2, missing_tables), False) \<Rightarrow>
                  (found # t1
                   @ [Print (NL @ YELLOW @ ''Verifying database setup...'' @ RESET @ NL)]
                   @ t2
                   @ [Print []]
                   @ map Print (final_summary missing_tables failed_migrations),
                   0)))"

text \<open>
  The whole process. It is \<open>script\<close> with the escaping exceptions added, and equals
  \<open>script\<close> in every run in which none is raised.
\<close>

definition run :: "escapes \<Rightarrow> world \<Rightarrow> result" where
  "run x w =
     (if \<not> env_file_exists w then
        \<lparr>trace = [Print title_banner,
                  Print (log_error ''.env.local file not found!''),
                  Print ''Please create .env.local with your Supabase credentials''],
         exit_code = 1\<rparr>
      else
        (case load_dotenv_raises x of
           Some _ \<Rightarrow> \<lparr>trace = [Print title_banner], exit_code = 1\<rparr>
         | None \<Rightarrow>
             (if \<not> truthy (getenv_url w) \<or> \<not> truthy (getenv_key w) then
                \<lparr>trace = Print title_banner # missing_variables, exit_code = 1\<rparr>
              else
                (case (getenv_url w, getenv_key w) of
                   (Some supabase_url, Some service_role_key) \<Rightarrow>
                     (case extract_project_ref w supabase_url of
                        Inl _ \<Rightarrow>
                          \<lparr>trace = [Print title_banner,
                                    Print (log_error ''Could not parse Supabase URL''),
                                    Print ''URL should be in format: https://yourproject.supabase.co''],
                           exit_code = 1\<rparr>
                      | Inr project_ref \<Rightarrow>
                          (let p = db_params project_ref service_role_key;
                               t1 = before_probe project_ref supabase_url p
                           in case probe_raises x of
                                Some _ \<Rightarrow> \<lparr>trace = t1, exit_code = 1\<rparr>
                              | None \<Rightarrow>
                                  (case probe_connect w of
                                     Some e \<Rightarrow>
                                       \<lparr>trace = t1 @
                                          [Print (log_error (''Could not connect to database: '' @ e)),
                                           Print (NL @ ''Please check your credentials and try again.''),
                                           Print (''Note: Make sure you'' @ [CHR 0x27] @
                                                  ''re using the SERVICE_ROLE_KEY, not the ANON_KEY'')],
                                        exit_code = 1\<rparr>
                                   | None \<Rightarrow>
                                       (case migration_dir w of
                                          None \<Rightarrow>
                                            \<lparr>trace = t1 @ after_probe @
                                               [Print (log_error
                                                  ''Migration directory not found: supabase/migrations'')],
                                             exit_code = 1\<rparr>
                                        | Some entries \<Rightarrow>
                                            (let migration_files = sort (filter glob_sql entries)
                                             in if migration_files = [] then
                                                  \<lparr>trace = t1 @ after_probe @
                                                     [Print (log_error ''No SQL migration files found!'')],
                                                   exit_code = 1\<rparr>
                                                else
                                                  (case run_and_report_x x w p migration_files of
                                                     (t2, status) \<Rightarrow>
                                                       \<lparr>trace = t1 @ after_probe @ t2,
                                                        exit_code = status\<rparr>))))))
                 | _ \<Rightarrow> \<lparr>trace = Print title_banner # missing_variables, exit_code = 1\<rparr>))))"

text \<open>No exception escapes in a run on \<open>w\<close>: none of the places above raises, for the
  files of the migration directory and the three tables.\<close>

definition no_escape :: "escapes \<Rightarrow> world \<Rightarrow> bool" where
  "no_escape x w \<longleftrightarrow>
     load_dotenv_raises x = None \<and> probe_raises x = None \<and>
     (case migration_dir w of
        None \<Rightarrow> True
      | Some entries \<Rightarrow> list_all (\<lambda>n. \<not> unprintable x n) (filter glob_sql entries)) \<and>
     verify_connect_raises x = None \<and>
     list_all (\<lambda>t. verify_query_raises x t = None) tables_to_check"

definition no_escapes :: escapes where
  "no_escapes =
     \<lparr>load_dotenv_raises = None, probe_raises = None, unprintable = (\<lambda>n. False),
      verify_connect_raises = None, verify_query_raises = (\<lambda>t. None)\<rparr>"

definition escapes_verification_raises :: escapes where
  "escapes_verification_raises = no_escapes\<lparr>verify_connect_raises := Some ''interrupted''\<rparr>"

definition escapes_unprintable_name :: escapes where
  "escapes_unprintable_name = no_escapes\<lparr>unprintable := (\<lambda>n. n = ''002_b.sql'')\<rparr>"

definition escapes_load_dotenv :: escapes where
  "escapes_load_dotenv = no_escapes\<lparr>load_dotenv_raises := Some ''is a directory''\<rparr>"

section \<open>Lemmas about the parts of the script\<close>

lemma split_on_not_Nil: "split_on c s \<noteq> []"
  by (induction s) (auto split: list.splits)

lemma hd_split_on: "hd (split_on c s) = takeWhile (\<lambda>x. x \<noteq> c) s"
  by (induction s) (auto split: list.splits simp: split_on_not_Nil)

lemma extract_project_ref_hostname:
  "urlparse_hostname w url = Hostname (Some h) \<Longrightarrow>
   extract_project_ref w url = Inr (takeWhile (\<lambda>x. x \<noteq> CHR ''.'') h)"
  using hd_split_on [of "CHR ''.''" h] split_on_not_Nil [of "CHR ''.''" h]
  by (auto simp: extract_project_ref_def split: list.splits)

lemma connections_append [simp]: "connections (xs @ ys) = connections xs @ connections ys"
  by (simp add: connections_def)

lemma connections_simps [simp]:
  "connections [] = []"
  "connections (Connect p # t) = p # connections t"
  "connections (Print s # t) = connections t"
  "connections (ReadFile n # t) = connections t"
  "connections (Execute q a # t) = connections t"
  "connections (Commit # t) = connections t"
  "connections (Close # t) = connections t"
  by (simp_all add: connections_def)

lemma connections_run_migration:
  "connections (fst (run_migration w p n)) = (case read_file w n of Inl _ \<Rightarrow> [] | Inr _ \<Rightarrow> [p])"
  by (simp add: run_migration_def Let_def split: sum.split option.split)

lemma connections_run_migrations:
  "set (connections (fst (run_migrations w p fs (t, f)))) \<subseteq> set (connections t) \<union> {p}"
proof (induction fs arbitrary: t f)
  case Nil
  then show ?case by auto
next
  case (Cons n fs)
  obtain ev bad where r: "run_migration w p n = (ev, bad)" by (cases "run_migration w p n")
  have "set (connections ev) \<subseteq> {p}"
    using connections_run_migration [of w p n] r by (simp split: sum.splits)
  moreover have "set (connections (fst (run_migrations w p (n # fs) (t, f))))
                 \<subseteq> set (connections (t @ ev)) \<union> {p}"
    using Cons.IH [of "t @ ev"] r by simp
  ultimately show ?case by auto
qed

lemma connections_check_tables:
  "connections (fst (fst (check_tables w ts (t, m)))) = connections t"
  by (induction ts arbitrary: t m) (simp_all split: option.split)

lemma connections_verify_tables: "connections (fst (verify_tables w p)) = [p]"
proof (cases "verify_connect w")
  case None
  obtain t m e where c: "check_tables w tables_to_check ([Connect p], []) = ((t, m), e)"
    by (cases "check_tables w tables_to_check ([Connect p], [])") auto
  have "connections t = [p]"
    using connections_check_tables [of w tables_to_check "[Connect p]" "[]"] c by simp
  then show ?thesis using None c by (cases e) (simp_all add: verify_tables_def)
next
  case (Some e)
  then show ?thesis by (simp add: verify_tables_def)
qed

lemma connections_map_Print [simp]: "connections (map Print xs) = []"
  by (induction xs) simp_all

lemma connections_run_and_report: "set (connections (run_and_report w p fs)) \<subseteq> {p}"
proof -
  obtain t1 f where a: "run_migrations w p fs ([], []) = (t1, f)"
    by (cases "run_migrations w p fs ([], [])")
  obtain t2 m where b: "verify_tables w p = (t2, m)"
    by (cases "verify_tables w p")
  have 1: "set (connections t1) \<subseteq> {p}"
    using connections_run_migrations [of w p fs "[]" "[]"] a by simp
  have 2: "connections t2 = [p]" using connections_verify_tables [of w p] b by simp
  have "connections (run_and_report w p fs) = connections t1 @ [p]"
    using 2 by (simp add: run_and_report_def a b)
  then show ?thesis using 1 by auto
qed

lemma in_connections: "Connect q \<in> set t \<longleftrightarrow> q \<in> set (connections t)"
  by (induction t) (auto simp: connections_def split: event.splits)

lemma script_not_configured:
  "\<not> env_file_exists w \<or> \<not> truthy (getenv_url w) \<or> \<not> truthy (getenv_key w) \<Longrightarrow>
   connections (trace (script w)) = [] \<and> exit_code (script w) = 1"
  by (auto simp: script_def truthy_def missing_variables_def split: option.splits)

lemma script_unparseable:
  "env_file_exists w \<Longrightarrow> getenv_url w = Some url \<Longrightarrow> url \<noteq> [] \<Longrightarrow> truthy (getenv_key w) \<Longrightarrow>
   extract_project_ref w url = Inl ex \<Longrightarrow>
   script w = \<lparr>trace = [Print title_banner,
                          Print (log_error ''Could not parse Supabase URL''),
                          Print ''URL should be in format: https://yourproject.supabase.co''],
               exit_code = 1\<rparr>"
  by (auto simp: script_def truthy_def split: option.splits)

lemma script_configured:
  assumes "configured w url key ref"
  shows "script w =
     (case probe_connect w of
        Some e \<Rightarrow>
          \<lparr>trace = before_probe ref url (db_params ref key) @
             [Print (log_error (''Could not connect to database: '' @ e)),
              Print (NL @ ''Please check your credentials and try again.''),
              Print (''Note: Make sure you'' @ [CHR 0x27] @
                     ''re using the SERVICE_ROLE_KEY, not the ANON_KEY'')],
           exit_code = 1\<rparr>
      | None \<Rightarrow>
          (case migration_dir w of
             None \<Rightarrow>
               \<lparr>trace = before_probe ref url (db_params ref key) @ after_probe @
                  [Print (log_error ''Migration directory not found: supabase/migrations'')],
                exit_code = 1\<rparr>
           | Some entries \<Rightarrow>
               if sort (filter glob_sql entries) = [] then
                 \<lparr>trace = before_probe ref url (db_params ref key) @ after_probe @
                    [Print (log_error ''No SQL migration files found!'')],
                  exit_code = 1\<rparr>
               else
                 \<lparr>trace = before_probe ref url (db_params ref key) @ after_probe @
                    run_and_report w (db_params ref key) (sort (filter glob_sql entries)),
                  exit_code = 0\<rparr>))"
  using assms by (simp add: configured_def script_def truthy_def Let_def split: option.split)

lemma connections_before_probe [simp]: "connections (before_probe r u p) = [p]"
  by (simp add: before_probe_def)

lemma connections_after_probe [simp]: "connections after_probe = []"
  by (simp add: after_probe_def)

lemma connections_script_configured:
  assumes "configured w url key ref"
  shows "set (connections (trace (script w))) \<subseteq> {db_params ref key}"
proof -
  have "set (connections (run_and_report w (db_params ref key) fs)) \<subseteq> {db_params ref key}" for fs
    by (rule connections_run_and_report)
  then show ?thesis
    by (simp add: script_configured [OF assms] split: option.split)
qed

lemma sort_Nil_iff: "sort xs = [] \<longleftrightarrow> xs = []"
  using length_sort [of "\<lambda>x. x" xs] by (metis length_0_conv)

lemma exit_code_script_configured:
  assumes "configured w url key ref"
  shows "exit_code (script w) =
          (if probe_connect w \<noteq> None \<or>
              (case migration_dir w of None \<Rightarrow> True | Some entries \<Rightarrow> filter glob_sql entries = [])
           then 1 else 0)"
  by (simp add: script_configured [OF assms] sort_Nil_iff split: option.split)

lemma configured_cases:
  "\<not> env_file_exists w \<or> \<not> truthy (getenv_url w) \<or> \<not> truthy (getenv_key w) \<or>
   (\<exists>url ex. env_file_exists w \<and> getenv_url w = Some url \<and> url \<noteq> [] \<and> truthy (getenv_key w) \<and>
              extract_project_ref w url = Inl ex) \<or>
   (\<exists>url key ref. configured w url key ref)"
proof (cases "\<not> env_file_exists w \<or> \<not> truthy (getenv_url w) \<or> \<not> truthy (getenv_key w)")
  case True
  then show ?thesis by blast
next
  case False
  then obtain url key where uk: "getenv_url w = Some url" "url \<noteq> []" "getenv_key w = Some key" "key \<noteq> []"
    by (auto simp: truthy_def split: option.splits)
  show ?thesis
  proof (cases "extract_project_ref w url")
    case (Inl ex)
    then show ?thesis using False uk by blast
  next
    case (Inr ref)
    then have "configured w url key ref" using False uk by (simp add: configured_def)
    then show ?thesis by blast
  qed
qed

lemma exit_code_script:
  "exit_code (script w) = (if fatal_precondition_fails w then 1 else 0)"
proof -
  consider (a) "\<not> env_file_exists w \<or> \<not> truthy (getenv_url w) \<or> \<not> truthy (getenv_key w)"
    | (b) url ex where "env_file_exists w" "getenv_url w = Some url" "url \<noteq> []"
        "truthy (getenv_key w)" "extract_project_ref w url = Inl ex"
    | (c) url key ref where "configured w url key ref"
    using configured_cases [of w] by blast
  then show ?thesis
  proof cases
    case a
    then show ?thesis using script_not_configured [OF a] by (auto simp: fatal_precondition_fails_def)
  next
    case b
    then show ?thesis using script_unparseable [OF b] by (simp add: fatal_precondition_fails_def)
  next
    case c
    then have "\<not> (\<not> env_file_exists w \<or> \<not> truthy (getenv_url w) \<or> \<not> truthy (getenv_key w))"
      and "getenv_url w = Some url" and "extract_project_ref w url = Inr ref"
      by (simp_all add: configured_def truthy_def)
    then show ?thesis
      using exit_code_script_configured [OF c] by (simp add: fatal_precondition_fails_def)
  qed
qed

lemmas example_worlds =
  example_world_def world_no_env_file_def world_no_key_def world_schemeless_url_def
  world_probe_fails_def world_no_migration_dir_def world_no_sql_files_def

lemma attempted_append [simp]: "attempted (xs @ ys) = attempted xs @ attempted ys"
  by (simp add: attempted_def)

lemma attempted_simps [simp]:
  "attempted [] = []"
  "attempted (ReadFile n # t) = n # attempted t"
  "attempted (Print s # t) = attempted t"
  "attempted (Connect p # t) = attempted t"
  "attempted (Execute q a # t) = attempted t"
  "attempted (Commit # t) = attempted t"
  "attempted (Close # t) = attempted t"
  by (simp_all add: attempted_def)

lemma attempted_map_Print [simp]: "attempted (map Print xs) = []"
  by (induction xs) simp_all

lemma snd_run_migration: "snd (run_migration w p n) = migration_fails w n"
  by (simp add: run_migration_def migration_fails_def Let_def split: sum.split option.split)

lemma attempted_run_migration: "attempted (fst (run_migration w p n)) = [n]"
  by (simp add: run_migration_def Let_def split: sum.split option.split)

lemma run_migrations_acc:
  "run_migrations w p fs (t, f) =
     (t @ fst (run_migrations w p fs ([], [])), f @ snd (run_migrations w p fs ([], [])))"
proof (induction fs arbitrary: t f)
  case Nil
  then show ?case by simp
next
  case (Cons n fs)
  obtain ev bad where r: "run_migration w p n = (ev, bad)" by (cases "run_migration w p n")
  show ?case
    using Cons.IH [of "t @ ev" "if bad then f @ [n] else f"]
          Cons.IH [of "ev" "if bad then [n] else []"] r
    by (cases bad) simp_all
qed

lemma run_migrations_Cons:
  "run_migrations w p (n # fs) ([], []) =
     (fst (run_migration w p n) @ fst (run_migrations w p fs ([], [])),
      (if migration_fails w n then [n] else []) @ snd (run_migrations w p fs ([], [])))"
proof -
  obtain ev bad where r: "run_migration w p n = (ev, bad)" by (cases "run_migration w p n")
  have b: "bad = migration_fails w n" using snd_run_migration [of w p n] r by simp
  show ?thesis
    using run_migrations_acc [of w p fs ev "if bad then [n] else []"] r b
    by (cases "migration_fails w n") simp_all
qed

lemma run_migrations_append:
  "run_migrations w p (xs @ ys) ([], []) =
     (fst (run_migrations w p xs ([], [])) @ fst (run_migrations w p ys ([], [])),
      snd (run_migrations w p xs ([], [])) @ snd (run_migrations w p ys ([], [])))"
proof (induction xs)
  case Nil
  then show ?case by simp
next
  case (Cons n xs)
  have "run_migrations w p ((n # xs) @ ys) ([], []) = run_migrations w p (n # (xs @ ys)) ([], [])"
    by simp
  also have "\<dots> = (fst (run_migration w p n) @ fst (run_migrations w p (xs @ ys) ([], [])),
      (if migration_fails w n then [n] else []) @ snd (run_migrations w p (xs @ ys) ([], [])))"
    by (rule run_migrations_Cons)
  finally show ?case using Cons.IH by (simp add: run_migrations_Cons del: run_migrations.simps(2))
qed

lemma failed_run_migrations:
  "snd (run_migrations w p fs ([], [])) = filter (migration_fails w) fs"
  by (induction fs) (simp_all add: run_migrations_Cons del: run_migrations.simps(2))

lemma attempted_run_migrations:
  "attempted (fst (run_migrations w p fs ([], []))) = fs"
  by (induction fs)
     (simp_all add: run_migrations_Cons attempted_run_migration del: run_migrations.simps(2))

lemma run_migrations_steps:
  "run_migrations w p fs ([], []) =
     run_migrations w p (drop k fs) (run_migrations w p (take k fs) ([], []))"
proof -
  obtain t f where r: "run_migrations w p (take k fs) ([], []) = (t, f)"
    by (cases "run_migrations w p (take k fs) ([], [])")
  have "run_migrations w p (take k fs @ drop k fs) ([], []) =
        run_migrations w p (drop k fs) (t, f)"
    using run_migrations_append [of w p "take k fs" "drop k fs"] r
          run_migrations_acc [of w p "drop k fs" t f]
    by simp
  then show ?thesis using r by simp
qed

lemma attempted_check_tables:
  "attempted (fst (fst (check_tables w ts (t, m)))) = attempted t"
  by (induction ts arbitrary: t m) (simp_all split: option.split)

lemma attempted_verify_tables: "attempted (fst (verify_tables w p)) = []"
proof (cases "verify_connect w")
  case None
  obtain t m e where c: "check_tables w tables_to_check ([Connect p], []) = ((t, m), e)"
    by (cases "check_tables w tables_to_check ([Connect p], [])") auto
  have "attempted t = []"
    using attempted_check_tables [of w tables_to_check "[Connect p]" "[]"] c by simp
  then show ?thesis using None c by (cases e) (simp_all add: verify_tables_def)
next
  case (Some e)
  then show ?thesis by (simp add: verify_tables_def)
qed

lemma run_and_report_eq:
  "run_and_report w p fs =
     [Print (log_info (''Found '' @ str_nat (length fs) @ '' migration files'' @ NL))]
     @ fst (run_migrations w p fs ([], []))
     @ [Print verifying_banner]
     @ fst (verify_tables w p)
     @ [Print []]
     @ map Print (final_summary (snd (verify_tables w p)) (filter (migration_fails w) fs))"
proof -
  obtain t1 f where a: "run_migrations w p fs ([], []) = (t1, f)"
    by (cases "run_migrations w p fs ([], [])")
  obtain t2 m where b: "verify_tables w p = (t2, m)"
    by (cases "verify_tables w p")
  have "f = filter (migration_fails w) fs" using failed_run_migrations [of w p fs] a by simp
  then show ?thesis by (simp add: run_and_report_def a b verifying_banner_def)
qed

lemma script_reaches_migrations:
  assumes "reaches_migrations w url key ref entries"
  shows "script w =
     \<lparr>trace = before_probe ref url (db_params ref key) @ after_probe @
               run_and_report w (db_params ref key) (sort (filter glob_sql entries)),
      exit_code = 0\<rparr>"
proof -
  have c: "configured w url key ref" using assms by (simp add: reaches_migrations_def)
  show ?thesis
    using assms by (simp add: script_configured [OF c] reaches_migrations_def sort_Nil_iff)
qed

lemma attempted_script:
  assumes "reaches_migrations w url key ref entries"
  shows "attempted (trace (script w)) = sort (filter glob_sql entries)"
  by (simp add: script_reaches_migrations [OF assms] run_and_report_eq attempted_run_migrations
      attempted_verify_tables before_probe_def after_probe_def)

lemma reaches_example_world:
  "reaches_migrations example_world ''https://abcxyz.supabase.co'' ''service-role-secret'' ''abcxyz''
     [''002_b.sql'', ''notes.txt'', ''001_a.sql'']"
  by (simp add: reaches_migrations_def configured_def example_world_def extract_project_ref_def
      glob_sql_def)

lemma reaches_world_two_failures:
  "reaches_migrations world_two_failures ''https://abcxyz.supabase.co'' ''service-role-secret''
     ''abcxyz'' [''003_c.sql'', ''001_a.sql'', ''002_b.sql'']"
  by (simp add: reaches_migrations_def configured_def world_two_failures_def example_world_def
      extract_project_ref_def glob_sql_def)

lemma sort_example_files:
  "sort (filter glob_sql [''002_b.sql'', ''notes.txt'', ''001_a.sql'']) = [''001_a.sql'', ''002_b.sql'']"
  by (simp add: glob_sql_def)

lemma sort_three_files:
  "sort (filter glob_sql [''003_c.sql'', ''001_a.sql'', ''002_b.sql''])
     = [''001_a.sql'', ''002_b.sql'', ''003_c.sql'']"
  by (simp add: glob_sql_def)

lemma check_tables_acc:
  "check_tables w ts (t, m) =
     ((t @ fst (fst (check_tables w ts ([], []))), m @ snd (fst (check_tables w ts ([], [])))),
      snd (check_tables w ts ([], [])))"
proof (induction ts arbitrary: t m)
  case Nil
  then show ?case by simp
next
  case (Cons a ts)
  show ?case
  proof (cases "verify_query w a")
    case (Some e)
    then show ?thesis by simp
  next
    case None
    show ?thesis
    proof (cases "table_exists w a")
      case True
      then show ?thesis
        using None Cons.IH [of "t @ [Execute exists_query [a],
                  Print (log_success (''Table '' @ [CHR 0x27] @ a @ [CHR 0x27] @ '' exists''))]" m]
          Cons.IH [of "[Execute exists_query [a],
                  Print (log_success (''Table '' @ [CHR 0x27] @ a @ [CHR 0x27] @ '' exists''))]" "[]"]
        by simp
    next
      case False
      then show ?thesis
        using None Cons.IH [of "t @ [Execute exists_query [a],
                  Print (log_error (''Table '' @ [CHR 0x27] @ a @ [CHR 0x27] @ '' not found''))]"
                  "m @ [a]"]
          Cons.IH [of "[Execute exists_query [a],
                  Print (log_error (''Table '' @ [CHR 0x27] @ a @ [CHR 0x27] @ '' not found''))]" "[a]"]
        by simp
    qed
  qed
qed

lemma check_tables_no_error:
  "\<forall>t \<in> set ts. verify_query w t = None \<Longrightarrow>
   snd (check_tables w ts ([], [])) = None \<and>
   snd (fst (check_tables w ts ([], []))) = filter (\<lambda>t. \<not> table_exists w t) ts"
proof (induction ts)
  case Nil
  then show ?case by simp
next
  case (Cons a ts)
  then have q: "verify_query w a = None" and
    ih: "snd (check_tables w ts ([], [])) = None"
        "snd (fst (check_tables w ts ([], []))) = filter (\<lambda>t. \<not> table_exists w t) ts"
    by simp_all
  show ?case
  proof (cases "table_exists w a")
    case True
    then show ?thesis
      using q ih check_tables_acc [of w ts "[Execute exists_query [a],
                  Print (log_success (''Table '' @ [CHR 0x27] @ a @ [CHR 0x27] @ '' exists''))]" "[]"]
      by simp
  next
    case False
    then show ?thesis
      using q ih check_tables_acc [of w ts "[Execute exists_query [a],
                  Print (log_error (''Table '' @ [CHR 0x27] @ a @ [CHR 0x27] @ '' not found''))]" "[a]"]
      by simp
  qed
qed

lemma verify_tables_eq:
  "verify_tables w p =
     (case verify_connect w of
        Some e \<Rightarrow> ([Connect p, Print (log_error (''Error checking tables: '' @ e))], [])
      | None \<Rightarrow>
          (Connect p # fst (fst (check_tables w tables_to_check ([], []))) @
             (case snd (check_tables w tables_to_check ([], [])) of
                Some e \<Rightarrow> [Print (log_error (''Error checking tables: '' @ e))]
              | None \<Rightarrow> [Close]),
           snd (fst (check_tables w tables_to_check ([], [])))))"
proof (cases "verify_connect w")
  case (Some e)
  then show ?thesis by (simp add: verify_tables_def)
next
  case None
  obtain t m e where c: "check_tables w tables_to_check ([], []) = ((t, m), e)"
    by (cases "check_tables w tables_to_check ([], [])") auto
  have "check_tables w tables_to_check ([Connect p], []) = ((Connect p # t, m), e)"
    using check_tables_acc [of w tables_to_check "[Connect p]" "[]"] c by simp
  then show ?thesis using None c by (cases e) (simp_all add: verify_tables_def)
qed

lemma verify_tables_no_error:
  assumes "verify_connect w = None" and "\<forall>t \<in> set tables_to_check. verify_query w t = None"
  shows "snd (verify_tables w p) = filter (\<lambda>t. \<not> table_exists w t) tables_to_check"
  using assms(1) check_tables_no_error [OF assms(2)] by (simp add: verify_tables_eq)

lemma verify_tables_starts_with_connect:
  "\<exists>rest. fst (verify_tables w p) = Connect p # rest"
  by (simp add: verify_tables_eq split: option.split)

lemma trace_script_split:
  assumes "reaches_migrations w url key ref entries"
  shows "\<exists>pre post.
           trace (script w) = pre @ Print verifying_banner # Connect (db_params ref key) # post \<and>
           attempted pre = sort (filter glob_sql entries)"
proof -
  let ?p = "db_params ref key" and ?fs = "sort (filter glob_sql entries)"
  obtain rest where v: "fst (verify_tables w ?p) = Connect ?p # rest"
    using verify_tables_starts_with_connect [of w ?p] by blast
  let ?pre = "before_probe ref url ?p @ after_probe @
     [Print (log_info (''Found '' @ str_nat (length ?fs) @ '' migration files'' @ NL))]
     @ fst (run_migrations w ?p ?fs ([], []))"
  let ?post = "rest @ [Print []]
     @ map Print (final_summary (snd (verify_tables w ?p)) (filter (migration_fails w) ?fs))"
  have "trace (script w) = ?pre @ Print verifying_banner # Connect ?p # ?post"
    by (simp add: script_reaches_migrations [OF assms] run_and_report_eq v)
  moreover have "attempted ?pre = ?fs"
    by (simp add: attempted_run_migrations before_probe_def after_probe_def)
  ultimately show ?thesis by blast
qed

lemma run_migration_success:
  assumes "\<not> migration_fails w n" and "read_file w n = Inr sql"
  shows "run_migration w p n =
          ([Print (log_info (''Running migration: '' @ n)), ReadFile n, Connect p, Execute sql [],
            Commit, Close, Print (log_success (n @ '' completed successfully'' @ NL))], False)"
  using assms by (auto simp: migration_fails_def run_migration_def)

lemmas colour_defs = RED_def GREEN_def YELLOW_def BLUE_def RESET_def NL_def

lemma success_banner_neq [simp]:
  "log_info x \<noteq> success_banner"
  "log_error x \<noteq> success_banner"
  "log_success x \<noteq> success_banner"
  "title_banner \<noteq> success_banner"
  "verifying_banner \<noteq> success_banner"
  "error_banner \<noteq> success_banner"
  "success_banner \<noteq> []"
  "failed_line f \<noteq> success_banner"
  "missing_line m \<noteq> success_banner"
  by (simp_all add: success_banner_def log_info_def log_error_def log_success_def title_banner_def
      verifying_banner_def error_banner_def failed_line_def missing_line_def colour_defs)

lemma error_banner_neq [simp]:
  "log_info x \<noteq> error_banner"
  "log_error x \<noteq> error_banner"
  "log_success x \<noteq> error_banner"
  "title_banner \<noteq> error_banner"
  "verifying_banner \<noteq> error_banner"
  "success_banner \<noteq> error_banner"
  "error_banner \<noteq> []"
  "failed_line f \<noteq> error_banner"
  "missing_line m \<noteq> error_banner"
  by (simp_all add: success_banner_def log_info_def log_error_def log_success_def title_banner_def
      verifying_banner_def error_banner_def failed_line_def missing_line_def colour_defs)

lemma printed_append [simp]: "printed (xs @ ys) = printed xs @ printed ys"
  by (simp add: printed_def)

lemma printed_simps [simp]:
  "printed [] = []"
  "printed (Print s # t) = s # printed t"
  "printed (ReadFile n # t) = printed t"
  "printed (Connect p # t) = printed t"
  "printed (Execute q a # t) = printed t"
  "printed (Commit # t) = printed t"
  "printed (Close # t) = printed t"
  by (simp_all add: printed_def)

lemma printed_map_Print [simp]: "printed (map Print xs) = xs"
  by (induction xs) simp_all

lemma in_printed: "Print s \<in> set t \<longleftrightarrow> s \<in> set (printed t)"
  by (induction t) (auto simp: printed_def split: event.splits)

lemma is_log_line_intros [simp]:
  "is_log_line (log_info x)" "is_log_line (log_error x)" "is_log_line (log_success x)"
  by (auto simp: is_log_line_def)

lemma log_line_not_banner:
  "is_log_line s \<Longrightarrow> s \<noteq> success_banner \<and> s \<noteq> error_banner"
  by (auto simp: is_log_line_def)

lemma printed_run_migration: "\<forall>s \<in> set (printed (fst (run_migration w p n))). is_log_line s"
  by (simp add: run_migration_def Let_def split: sum.split option.split)

lemma printed_run_migrations:
  "\<forall>s \<in> set (printed (fst (run_migrations w p fs ([], [])))). is_log_line s"
proof (induction fs)
  case Nil
  then show ?case by simp
next
  case (Cons n fs)
  then show ?case
    using printed_run_migration [of w p n]
    by (simp add: run_migrations_Cons del: run_migrations.simps(2)) blast
qed

lemma printed_check_tables:
  "\<forall>s \<in> set (printed (fst (fst (check_tables w ts ([], []))))). is_log_line s"
proof (induction ts)
  case Nil
  then show ?case by simp
next
  case (Cons a ts)
  show ?case
  proof (cases "verify_query w a")
    case (Some e)
    then show ?thesis by simp
  next
    case None
    show ?thesis
    proof (cases "table_exists w a")
      case True
      then show ?thesis
        using None Cons.IH check_tables_acc [of w ts "[Execute exists_query [a],
                  Print (log_success (''Table '' @ [CHR 0x27] @ a @ [CHR 0x27] @ '' exists''))]" "[]"]
        by simp
    next
      case False
      then show ?thesis
        using None Cons.IH check_tables_acc [of w ts "[Execute exists_query [a],
                  Print (log_error (''Table '' @ [CHR 0x27] @ a @ [CHR 0x27] @ '' not found''))]" "[a]"]
        by simp
    qed
  qed
qed

lemma printed_verify_tables: "\<forall>s \<in> set (printed (fst (verify_tables w p))). is_log_line s"
  using printed_check_tables [of w tables_to_check]
  by (simp add: verify_tables_eq split: option.split)

lemma in_join: "n \<in> set xs \<Longrightarrow> \<exists>a b. join sep xs = a @ n @ b"
proof (induction sep xs rule: join.induct)
  case (1 sep)
  then show ?case by simp
next
  case (2 sep x)
  then have "join sep [x] = [] @ n @ []" by simp
  then show ?case by blast
next
  case (3 sep x y ys)
  show ?case
  proof (cases "n = x")
    case True
    then have "join sep (x # y # ys) = [] @ n @ (sep @ join sep (y # ys))" by simp
    then show ?thesis by blast
  next
    case False
    then have "n \<in> set (y # ys)" using 3 by simp
    then obtain a b where "join sep (y # ys) = a @ n @ b" using 3 by blast
    then have "join sep (x # y # ys) = (x @ sep @ a) @ n @ b" by simp
    then show ?thesis by blast
  qed
qed

lemma success_banner_in_final_summary:
  "success_banner \<in> set (final_summary m f) \<longleftrightarrow> m = [] \<and> f = []"
proof -
  have "success_banner \<noteq> NL @ ''You can run migrations manually in the Supabase SQL Editor.''"
       "success_banner \<noteq> ''Please check the errors above and fix them.''"
       "success_banner \<noteq> ''You may need to run the failed migrations manually.''"
    by (simp_all add: success_banner_def colour_defs)
  then show ?thesis
    using success_banner_neq(6) [symmetric] success_banner_neq(8) [of f, symmetric]
          success_banner_neq(9) [of m, symmetric]
    by (simp add: final_summary_def)
qed

lemma error_banner_in_final_summary:
  "error_banner \<in> set (final_summary m f) \<longleftrightarrow> \<not> (m = [] \<and> f = [])"
proof -
  have "error_banner \<noteq> ''You can now:''"
       "error_banner \<noteq> ''  1. Register new users at http://localhost:3000/login''"
       "error_banner \<noteq> ''  2. Create and manage articles''"
       "error_banner \<noteq> ''  3. Track user activity''"
    by (simp_all add: error_banner_def colour_defs)
  then show ?thesis
    using error_banner_neq(6) [symmetric]
    by (simp add: final_summary_def)
qed

lemma printed_script:
  assumes "reaches_migrations w url key ref entries"
  shows "printed (trace (script w)) =
     [title_banner, log_info (''Project Reference: '' @ ref), log_info (''Supabase URL: '' @ url @ NL),
      log_info ''Testing database connection...'',
      log_success (''Successfully connected to Supabase database'' @ NL),
      log_info (''Found '' @ str_nat (length (sort (filter glob_sql entries))) @ '' migration files'' @ NL)]
     @ printed (fst (run_migrations w (db_params ref key) (sort (filter glob_sql entries)) ([], [])))
     @ [verifying_banner]
     @ printed (fst (verify_tables w (db_params ref key)))
     @ [[]]
     @ final_summary (snd (verify_tables w (db_params ref key)))
         (filter (migration_fails w) (sort (filter glob_sql entries)))"
  by (simp add: script_reaches_migrations [OF assms] run_and_report_eq before_probe_def
      after_probe_def)

lemma banner_only_in_summary:
  assumes "reaches_migrations w url key ref entries"
      and "b = success_banner \<or> b = error_banner"
  shows "Print b \<in> set (trace (script w)) \<longleftrightarrow>
         b \<in> set (final_summary (snd (verify_tables w (db_params ref key)))
                    (filter (migration_fails w) (sort (filter glob_sql entries))))"
proof -
  let ?p = "db_params ref key" and ?fs = "sort (filter glob_sql entries)"
  have 1: "b \<notin> set (printed (fst (run_migrations w ?p ?fs ([], []))))"
    using printed_run_migrations [of w ?p ?fs] log_line_not_banner assms(2) by blast
  have 2: "b \<notin> set (printed (fst (verify_tables w ?p)))"
    using printed_verify_tables [of w ?p] log_line_not_banner assms(2) by blast
  have 3: "b \<noteq> title_banner" "b \<noteq> verifying_banner" "b \<noteq> []" "\<And>x. b \<noteq> log_info x"
      "\<And>x. b \<noteq> log_success x"
    using assms(2) success_banner_neq [symmetric] error_banner_neq [symmetric] by auto
  show ?thesis
    using 1 2 3 by (simp add: in_printed printed_script [OF assms(1)])
qed

lemma trace_script_ends_with_summary:
  assumes "reaches_migrations w url key ref entries"
  shows "\<exists>pre. trace (script w) =
           pre @ map Print (final_summary (snd (verify_tables w (db_params ref key)))
                   (filter (migration_fails w) (sort (filter glob_sql entries))))"
  by (simp add: script_reaches_migrations [OF assms] run_and_report_eq)

lemma reaches_world_failed_and_missing:
  "reaches_migrations world_failed_and_missing ''https://abcxyz.supabase.co'' ''service-role-secret''
     ''abcxyz'' [''002_b.sql'', ''notes.txt'', ''001_a.sql'']"
  by (simp add: reaches_migrations_def configured_def world_failed_and_missing_def example_world_def
      extract_project_ref_def glob_sql_def)

lemma reaches_world_tables_exist_migration_failed:
  "reaches_migrations world_tables_exist_migration_failed ''https://abcxyz.supabase.co''
     ''service-role-secret'' ''abcxyz'' [''002_b.sql'', ''notes.txt'', ''001_a.sql'']"
  by (simp add: reaches_migrations_def configured_def world_tables_exist_migration_failed_def
      example_world_def extract_project_ref_def glob_sql_def)

lemma reaches_world_verification_fails:
  "reaches_migrations world_verification_fails ''https://abcxyz.supabase.co''
     ''service-role-secret'' ''abcxyz'' [''002_b.sql'', ''notes.txt'', ''001_a.sql'']"
  by (simp add: reaches_migrations_def configured_def world_verification_fails_def
      example_world_def extract_project_ref_def glob_sql_def)

lemma failed_world_failed_and_missing:
  "filter (migration_fails world_failed_and_missing) [''001_a.sql'', ''002_b.sql''] = [''002_b.sql'']"
  by (simp add: migration_fails_def world_failed_and_missing_def example_world_def)

lemma failed_world_tables_exist_migration_failed:
  "filter (migration_fails world_tables_exist_migration_failed) [''001_a.sql'', ''002_b.sql'']
     = [''002_b.sql'']"
  by (simp add: migration_fails_def world_tables_exist_migration_failed_def example_world_def)

lemma failed_example_world:
  "filter (migration_fails example_world) [''001_a.sql'', ''002_b.sql''] = []"
  by (simp add: migration_fails_def example_world_def)

lemma failed_world_verification_fails:
  "filter (migration_fails world_verification_fails) [''001_a.sql'', ''002_b.sql''] = []"
  by (simp add: migration_fails_def world_verification_fails_def example_world_def)

lemma missing_world_failed_and_missing:
  "snd (verify_tables world_failed_and_missing p) = [''articles'', ''workers'']"
  by (simp add: world_failed_and_missing_def example_world_def verify_tables_def tables_to_check_def)

lemma missing_example_world: "snd (verify_tables example_world p) = []"
  by (simp add: example_world_def verify_tables_def tables_to_check_def)

lemma missing_world_verification_fails: "snd (verify_tables world_verification_fails p) = []"
  by (simp add: world_verification_fails_def example_world_def verify_tables_def)

lemma first_label_spec:
  "c \<notin> set (takeWhile (\<lambda>x. x \<noteq> c) s) \<and>
   (s = takeWhile (\<lambda>x. x \<noteq> c) s \<or> (\<exists>rest. s = takeWhile (\<lambda>x. x \<noteq> c) s @ c # rest))"
  by (induction s) auto

lemma run_migrations_x_no_escape:
  "list_all (\<lambda>n. \<not> unprintable x n) fs \<Longrightarrow>
   run_migrations_x x w p fs st = (run_migrations w p fs st, False)"
proof (induction fs arbitrary: st)
  case Nil
  then show ?case by simp
next
  case (Cons n fs)
  obtain t f where st: "st = (t, f)" by (cases st)
  obtain ev bad where r: "run_migration w p n = (ev, bad)" by (cases "run_migration w p n")
  show ?case using Cons st r by simp
qed

lemma check_tables_x_no_escape:
  "list_all (\<lambda>t. verify_query_raises x t = None) ts \<Longrightarrow>
   check_tables_x x w ts st =
     (fst (check_tables w ts st),
      case snd (check_tables w ts st) of None \<Rightarrow> Completed | Some e \<Rightarrow> DriverError e)"
proof (induction ts arbitrary: st)
  case Nil
  then show ?case by simp
next
  case (Cons a ts)
  obtain t m where st: "st = (t, m)" by (cases st)
  show ?case using Cons st by (simp split: option.split)
qed

lemma verify_tables_x_no_escape:
  assumes "verify_connect_raises x = None"
      and "list_all (\<lambda>t. verify_query_raises x t = None) tables_to_check"
  shows "verify_tables_x x w p = (verify_tables w p, False)"
proof (cases "verify_connect w")
  case (Some e)
  then show ?thesis using assms(1) by (simp add: verify_tables_x_def verify_tables_def)
next
  case None
  obtain t m e where c: "check_tables w tables_to_check ([Connect p], []) = ((t, m), e)"
    by (cases "check_tables w tables_to_check ([Connect p], [])") auto
  show ?thesis
    using None assms(1) c check_tables_x_no_escape [OF assms(2), of w "([Connect p], [])"]
    by (cases e) (simp_all add: verify_tables_x_def verify_tables_def)
qed

lemma run_and_report_x_no_escape:
  assumes "list_all (\<lambda>n. \<not> unprintable x n) fs"
      and "verify_connect_raises x = None"
      and "list_all (\<lambda>t. verify_query_raises x t = None) tables_to_check"
  shows "run_and_report_x x w p fs = (run_and_report w p fs, 0)"
proof -
  obtain t1 f where a: "run_migrations w p fs ([], []) = (t1, f)"
    by (cases "run_migrations w p fs ([], [])")
  obtain t2 m where b: "verify_tables w p = (t2, m)"
    by (cases "verify_tables w p")
  show ?thesis
    using a b run_migrations_x_no_escape [OF assms(1), of w p "([], [])"]
      verify_tables_x_no_escape [OF assms(2) assms(3), of w p]
    by (simp add: run_and_report_x_def run_and_report_def Let_def)
qed

lemma run_no_escape:
  assumes "no_escape x w"
  shows "run x w = script w"
proof -
  have l: "load_dotenv_raises x = None" and pr: "probe_raises x = None"
    and v: "verify_connect_raises x = None"
    and q: "list_all (\<lambda>t. verify_query_raises x t = None) tables_to_check"
    using assms by (simp_all add: no_escape_def)
  have f: "migration_dir w = Some entries \<Longrightarrow>
           list_all (\<lambda>n. \<not> unprintable x n) (sort (filter glob_sql entries))" for entries
    using assms by (simp add: no_escape_def list_all_iff)
  have "migration_dir w = Some entries \<Longrightarrow>
        run_and_report_x x w p (sort (filter glob_sql entries))
          = (run_and_report w p (sort (filter glob_sql entries)), 0)" for entries p
    using run_and_report_x_no_escape [OF f v q] by simp
  then show ?thesis
    using l pr
    by (simp add: run_def script_def Let_def split: option.split sum.split prod.split)
qed


lemma no_escape_no_escapes: "no_escape no_escapes w"
  by (simp add: no_escape_def no_escapes_def list_all_iff split: option.split)

lemma not_fatal_example_world: "\<not> fatal_precondition_fails example_world"
  by (simp add: example_world_def fatal_precondition_fails_def truthy_def extract_project_ref_def
      glob_sql_def)

lemma not_fatal_world_failed_and_missing: "\<not> fatal_precondition_fails world_failed_and_missing"
  by (simp add: world_failed_and_missing_def example_world_def fatal_precondition_fails_def
      truthy_def extract_project_ref_def glob_sql_def)

section \<open>The claims of the specification\<close>

text \<open>
  Claim C1, as the script has it. In a run that reaches the verification step, and in
  which neither the verification connection nor any of the three queries raises, the
  list \<open>missing_tables\<close> is exactly the expected tables that do not exist, in the order
  \<open>users\<close>, \<open>articles\<close>, \<open>workers\<close>. If all three exist and no migration failed, the
  summary prints the success banner. If all three exist and a migration failed, it prints
  the error banner and not the success banner. If a table is missing, it prints the error
  banner and the line naming exactly the missing tables, and not the success banner.
\<close>

theorem summary_after_completed_verification:
  assumes "reaches_migrations w url key project_ref entries"
      and "verify_connect w = None"
      and "\<forall>t \<in> set tables_to_check. verify_query w t = None"
  shows "snd (verify_tables w (db_params project_ref key))
           = filter (\<lambda>t. \<not> table_exists w t) tables_to_check
       \<and> ((\<forall>t \<in> set tables_to_check. table_exists w t) \<and>
           (\<forall>n \<in> set (sort (filter glob_sql entries)). \<not> migration_fails w n) \<longrightarrow>
            Print success_banner \<in> set (trace (script w)) \<and>
            Print error_banner \<notin> set (trace (script w)))
       \<and> ((\<forall>t \<in> set tables_to_check. table_exists w t) \<and>
           (\<exists>n \<in> set (sort (filter glob_sql entries)). migration_fails w n) \<longrightarrow>
            Print success_banner \<notin> set (trace (script w)) \<and>
            Print error_banner \<in> set (trace (script w)))
       \<and> ((\<exists>t \<in> set tables_to_check. \<not> table_exists w t) \<longrightarrow>
            Print success_banner \<notin> set (trace (script w)) \<and>
            Print error_banner \<in> set (trace (script w)) \<and>
            Print (missing_line (filter (\<lambda>t. \<not> table_exists w t) tables_to_check))
              \<in> set (trace (script w)))"
proof -
  let ?p = "db_params project_ref key" and ?fs = "sort (filter glob_sql entries)"
  let ?m = "filter (\<lambda>t. \<not> table_exists w t) tables_to_check"
  let ?f = "filter (migration_fails w) ?fs"
  have m: "snd (verify_tables w ?p) = ?m"
    using assms(2) assms(3) by (rule verify_tables_no_error)
  have s: "Print success_banner \<in> set (trace (script w)) \<longleftrightarrow> ?m = [] \<and> ?f = []"
    using banner_only_in_summary [OF assms(1), of success_banner]
    by (simp add: m success_banner_in_final_summary)
  have e: "Print error_banner \<in> set (trace (script w)) \<longleftrightarrow> \<not> (?m = [] \<and> ?f = [])"
    using banner_only_in_summary [OF assms(1), of error_banner]
    by (simp add: m error_banner_in_final_summary)
  have l: "?m \<noteq> [] \<longrightarrow> Print (missing_line ?m) \<in> set (trace (script w))"
  proof
    assume "?m \<noteq> []"
    then have "missing_line ?m \<in> set (final_summary ?m ?f)" by (simp add: final_summary_def)
    then show "Print (missing_line ?m) \<in> set (trace (script w))"
      using trace_script_ends_with_summary [OF assms(1)] m by auto
  qed
  have m0: "?m = [] \<longleftrightarrow> (\<forall>t \<in> set tables_to_check. table_exists w t)"
    by (simp add: filter_empty_conv)
  have f0: "?f = [] \<longleftrightarrow> (\<forall>n \<in> set ?fs. \<not> migration_fails w n)"
    by (simp add: filter_empty_conv)
  show ?thesis using m s e l m0 f0 by blast
qed


theorem summary_after_completed_verification_witness:
  "reaches_migrations world_failed_and_missing ''https://abcxyz.supabase.co'' ''service-role-secret''
        ''abcxyz'' [''002_b.sql'', ''notes.txt'', ''001_a.sql'']
   \<and> verify_connect world_failed_and_missing = None
   \<and> verify_query world_failed_and_missing ''users'' = None
   \<and> verify_query world_failed_and_missing ''articles'' = None
   \<and> verify_query world_failed_and_missing ''workers'' = None
   \<and> \<not> table_exists world_failed_and_missing ''articles''
   \<and> filter (\<lambda>t. \<not> table_exists world_failed_and_missing t) tables_to_check
        = [''articles'', ''workers'']
   \<and> Print success_banner \<notin> set (trace (script world_failed_and_missing))
   \<and> Print error_banner \<in> set (trace (script world_failed_and_missing))
   \<and> Print ''Missing tables: articles, workers'' \<in> set (trace (script world_failed_and_missing))
   \<and> reaches_migrations example_world ''https://abcxyz.supabase.co'' ''service-role-secret'' ''abcxyz''
        [''002_b.sql'', ''notes.txt'', ''001_a.sql'']
   \<and> verify_connect example_world = None
   \<and> verify_query example_world ''users'' = None
   \<and> verify_query example_world ''articles'' = None
   \<and> verify_query example_world ''workers'' = None
   \<and> table_exists example_world ''users''
   \<and> table_exists example_world ''articles''
   \<and> table_exists example_world ''workers''
   \<and> \<not> migration_fails example_world ''001_a.sql''
   \<and> \<not> migration_fails example_world ''002_b.sql''
   \<and> Print success_banner \<in> set (trace (script example_world))"
proof -
  have h1: "verify_connect world_failed_and_missing = None"
       "\<forall>t \<in> set tables_to_check. verify_query world_failed_and_missing t = None"
    by (simp_all add: world_failed_and_missing_def example_world_def)
  have h2: "verify_connect example_world = None"
       "\<forall>t \<in> set tables_to_check. verify_query example_world t = None"
    by (simp_all add: example_world_def)
  note T1 = summary_after_completed_verification [OF reaches_world_failed_and_missing h1]
  note T2 = summary_after_completed_verification [OF reaches_example_world h2, unfolded sort_example_files]
  have m: "filter (\<lambda>t. \<not> table_exists world_failed_and_missing t) tables_to_check
        = [''articles'', ''workers'']"
    by (simp add: world_failed_and_missing_def example_world_def tables_to_check_def)
  have x: "\<not> table_exists world_failed_and_missing ''articles''"
          "''articles'' \<in> set tables_to_check"
    by (simp_all add: world_failed_and_missing_def example_world_def tables_to_check_def)
  have l: "missing_line [''articles'', ''workers''] = ''Missing tables: articles, workers''"
    by (simp add: missing_line_def)
  have a: "Print success_banner \<notin> set (trace (script world_failed_and_missing))"
          "Print error_banner \<in> set (trace (script world_failed_and_missing))"
          "Print (missing_line [''articles'', ''workers''])
             \<in> set (trace (script world_failed_and_missing))"
    using T1 x unfolding m by blast+
  have y: "\<forall>t \<in> set tables_to_check. table_exists example_world t"
          "\<forall>n \<in> set [''001_a.sql'', ''002_b.sql'']. \<not> migration_fails example_world n"
    by (simp_all add: example_world_def migration_fails_def)
  have b: "Print success_banner \<in> set (trace (script example_world))"
    using T2 y by blast
  have q: "verify_query world_failed_and_missing ''users'' = None"
          "verify_query world_failed_and_missing ''articles'' = None"
          "verify_query world_failed_and_missing ''workers'' = None"
          "verify_query example_world ''users'' = None"
          "verify_query example_world ''articles'' = None"
          "verify_query example_world ''workers'' = None"
    using h1(2) h2(2) by (simp_all add: tables_to_check_def)
  have z: "table_exists example_world ''users''"
          "table_exists example_world ''articles''"
          "table_exists example_world ''workers''"
          "\<not> migration_fails example_world ''001_a.sql''"
          "\<not> migration_fails example_world ''002_b.sql''"
    using y by (simp_all add: tables_to_check_def)
  show ?thesis
    using reaches_world_failed_and_missing h1(1) q x(1) m a reaches_example_world h2(1) z b
    unfolding l by blast
qed

text \<open>
  The claim as first stated fails in two runs. In the first, all three tables exist and
  \<open>002_b.sql\<close> fails: the summary prints the error banner, since the success branch also
  requires \<open>failed_migrations\<close> to be empty. In the second, no table exists, no migration
  fails and the verification connection raises: \<open>missing_tables\<close> stays empty and the
  summary prints the success banner.
\<close>

theorem summary_claim_counterexample:
  "table_exists world_tables_exist_migration_failed ''users''
   \<and> table_exists world_tables_exist_migration_failed ''articles''
   \<and> table_exists world_tables_exist_migration_failed ''workers''
   \<and> reaches_migrations world_tables_exist_migration_failed ''https://abcxyz.supabase.co''
        ''service-role-secret'' ''abcxyz'' [''002_b.sql'', ''notes.txt'', ''001_a.sql'']
   \<and> Print success_banner \<notin> set (trace (script world_tables_exist_migration_failed))
   \<and> Print error_banner \<in> set (trace (script world_tables_exist_migration_failed))
   \<and> \<not> table_exists world_verification_fails ''users''
   \<and> \<not> table_exists world_verification_fails ''articles''
   \<and> \<not> table_exists world_verification_fails ''workers''
   \<and> verify_connect world_verification_fails = Some ''connection timed out''
   \<and> reaches_migrations world_verification_fails ''https://abcxyz.supabase.co''
        ''service-role-secret'' ''abcxyz'' [''002_b.sql'', ''notes.txt'', ''001_a.sql'']
   \<and> Print success_banner \<in> set (trace (script world_verification_fails))
   \<and> Print error_banner \<notin> set (trace (script world_verification_fails))"
proof -
  have t: "table_exists world_tables_exist_migration_failed ''users''"
      "table_exists world_tables_exist_migration_failed ''articles''"
      "table_exists world_tables_exist_migration_failed ''workers''"
      "\<not> table_exists world_verification_fails ''users''"
      "\<not> table_exists world_verification_fails ''articles''"
      "\<not> table_exists world_verification_fails ''workers''"
      "verify_connect world_verification_fails = Some ''connection timed out''"
    by (simp_all add: world_tables_exist_migration_failed_def world_verification_fails_def
        example_world_def)
  note A = banner_only_in_summary [OF reaches_world_tables_exist_migration_failed,
             unfolded sort_example_files failed_world_tables_exist_migration_failed]
  note B = banner_only_in_summary [OF reaches_world_verification_fails,
             unfolded sort_example_files failed_world_verification_fails missing_world_verification_fails]
  have a: "Print success_banner \<notin> set (trace (script world_tables_exist_migration_failed))"
    using A [of success_banner] by (simp add: success_banner_in_final_summary)
  have b: "Print error_banner \<in> set (trace (script world_tables_exist_migration_failed))"
    using A [of error_banner] by (simp add: error_banner_in_final_summary)
  have c: "Print success_banner \<in> set (trace (script world_verification_fails))"
    using B [of success_banner] by (simp add: success_banner_in_final_summary)
  have d: "Print error_banner \<notin> set (trace (script world_verification_fails))"
    using B [of error_banner] by (simp add: error_banner_in_final_summary)
  show ?thesis
    using t a b c d reaches_world_tables_exist_migration_failed reaches_world_verification_fails
    by blast
qed

text \<open>
  Claim C2. A migration file whose pass raises (a driver error at connect, execute or
  commit, or any other exception while the file is read) has its name appended to
  \<open>failed_migrations\<close>, and the loop goes on with the next file: the failure list is the
  failing files in order, every file is opened exactly once in sorted order (no stop, no
  retry), and the verification connection is made after all of them. The passes before a
  file are what they would be without it, and a file that succeeds is executed,
  committed and its connection closed; nothing in the script undoes a commit.
\<close>

theorem failed_migration_is_recorded_and_run_continues:
  assumes "reaches_migrations w url key project_ref entries"
      and "files = sort (filter glob_sql entries)"
      and "p = db_params project_ref key"
  shows "(migration_fails w n \<longrightarrow>
            run_migrations w p (n # rest) (t, failed) =
              run_migrations w p rest (t @ fst (run_migration w p n), failed @ [n]))
       \<and> snd (run_migrations w p files ([], [])) = filter (migration_fails w) files
       \<and> attempted (trace (script w)) = files
       \<and> (\<exists>pre post. trace (script w) = pre @ Print verifying_banner # Connect p # post \<and>
                      attempted pre = files)
       \<and> (files = xs @ n # ys \<longrightarrow>
            run_migrations w p files ([], []) =
              (fst (run_migrations w p xs ([], [])) @ fst (run_migration w p n) @
                 fst (run_migrations w p ys ([], [])),
               filter (migration_fails w) xs @ (if migration_fails w n then [n] else []) @
                 filter (migration_fails w) ys))
       \<and> (\<not> migration_fails w n \<and> read_file w n = Inr sql \<longrightarrow>
            fst (run_migration w p n) =
              [Print (log_info (''Running migration: '' @ n)), ReadFile n, Connect p,
               Execute sql [], Commit, Close,
               Print (log_success (n @ '' completed successfully'' @ NL))])"
proof (intro conjI impI)
  assume f: "migration_fails w n"
  obtain ev bad where r: "run_migration w p n = (ev, bad)" by (cases "run_migration w p n")
  have "bad" using snd_run_migration [of w p n] r f by simp
  then show "run_migrations w p (n # rest) (t, failed) =
              run_migrations w p rest (t @ fst (run_migration w p n), failed @ [n])"
    using r by simp
next
  show "snd (run_migrations w p files ([], [])) = filter (migration_fails w) files"
    by (rule failed_run_migrations)
next
  show "attempted (trace (script w)) = files"
    using attempted_script [OF assms(1)] assms(2) by simp
next
  show "\<exists>pre post. trace (script w) = pre @ Print verifying_banner # Connect p # post \<and>
                      attempted pre = files"
    using trace_script_split [OF assms(1)] assms(2) assms(3) by simp
next
  assume "files = xs @ n # ys"
  then show "run_migrations w p files ([], []) =
              (fst (run_migrations w p xs ([], [])) @ fst (run_migration w p n) @
                 fst (run_migrations w p ys ([], [])),
               filter (migration_fails w) xs @ (if migration_fails w n then [n] else []) @
                 filter (migration_fails w) ys)"
    using run_migrations_append [of w p xs "n # ys"] run_migrations_Cons [of w p n ys]
    by (simp add: failed_run_migrations del: run_migrations.simps(2))
next
  assume "\<not> migration_fails w n \<and> read_file w n = Inr sql"
  then show "fst (run_migration w p n) =
              [Print (log_info (''Running migration: '' @ n)), ReadFile n, Connect p,
               Execute sql [], Commit, Close,
               Print (log_success (n @ '' completed successfully'' @ NL))]"
    using run_migration_success [of w n sql p] by simp
qed


theorem failed_migration_is_recorded_and_run_continues_witness:
  "reaches_migrations world_two_failures ''https://abcxyz.supabase.co'' ''service-role-secret''
     ''abcxyz'' [''003_c.sql'', ''001_a.sql'', ''002_b.sql'']
   \<and> migration_fails world_two_failures ''001_a.sql''
   \<and> migration_fails world_two_failures ''002_b.sql''
   \<and> \<not> migration_fails world_two_failures ''003_c.sql''
   \<and> read_file world_two_failures ''003_c.sql'' = Inr ''-- 003_c.sql''
   \<and> snd (run_migrations world_two_failures (db_params ''abcxyz'' ''service-role-secret'')
            [''001_a.sql'', ''002_b.sql'', ''003_c.sql''] ([], [])) = [''001_a.sql'', ''002_b.sql'']
   \<and> attempted (trace (script world_two_failures)) = [''001_a.sql'', ''002_b.sql'', ''003_c.sql'']
   \<and> (\<exists>pre post. trace (script world_two_failures) =
                      pre @ Print verifying_banner #
                        Connect (db_params ''abcxyz'' ''service-role-secret'') # post \<and>
                    attempted pre = [''001_a.sql'', ''002_b.sql'', ''003_c.sql''])
   \<and> fst (run_migration world_two_failures (db_params ''abcxyz'' ''service-role-secret'') ''003_c.sql'') =
       [Print (log_info (''Running migration: '' @ ''003_c.sql'')), ReadFile ''003_c.sql'',
        Connect (db_params ''abcxyz'' ''service-role-secret''), Execute ''-- 003_c.sql'' [], Commit, Close,
        Print (log_success (''003_c.sql'' @ '' completed successfully'' @ NL))]"
proof -
  note T = failed_migration_is_recorded_and_run_continues
             [OF reaches_world_two_failures refl refl, unfolded sort_three_files]
  have m: "migration_fails world_two_failures ''001_a.sql''"
      "migration_fails world_two_failures ''002_b.sql''"
      "\<not> migration_fails world_two_failures ''003_c.sql''"
      "read_file world_two_failures ''003_c.sql'' = Inr ''-- 003_c.sql''"
    by (simp_all add: migration_fails_def world_two_failures_def example_world_def)
  have f: "filter (migration_fails world_two_failures) [''001_a.sql'', ''002_b.sql'', ''003_c.sql'']
          = [''001_a.sql'', ''002_b.sql'']"
    using m by simp
  have a: "snd (run_migrations world_two_failures (db_params ''abcxyz'' ''service-role-secret'')
            [''001_a.sql'', ''002_b.sql'', ''003_c.sql''] ([], [])) = [''001_a.sql'', ''002_b.sql'']"
    using T [where n = "''003_c.sql''"] unfolding f by blast
  have b: "attempted (trace (script world_two_failures)) = [''001_a.sql'', ''002_b.sql'', ''003_c.sql'']"
    using T [where n = "''003_c.sql''"] by blast
  have c: "\<exists>pre post. trace (script world_two_failures) =
                      pre @ Print verifying_banner #
                        Connect (db_params ''abcxyz'' ''service-role-secret'') # post \<and>
                    attempted pre = [''001_a.sql'', ''002_b.sql'', ''003_c.sql'']"
    using T [where n = "''003_c.sql''"] by blast
  have d: "fst (run_migration world_two_failures (db_params ''abcxyz'' ''service-role-secret'') ''003_c.sql'') =
       [Print (log_info (''Running migration: '' @ ''003_c.sql'')), ReadFile ''003_c.sql'',
        Connect (db_params ''abcxyz'' ''service-role-secret''), Execute ''-- 003_c.sql'' [], Commit, Close,
        Print (log_success (''003_c.sql'' @ '' completed successfully'' @ NL))]"
    using m T [where n = "''003_c.sql''" and sql = "''-- 003_c.sql''"] by blast
  show ?thesis
    using reaches_world_two_failures m a b c d by blast
qed

text \<open>
  Claim C3, as the script has it. A run that passes every fatal precondition (environment
  file present, both variables set, project reference extracted, probe connected,
  migration directory present with at least one \<open>*.sql\<close> file), and in which no exception
  escapes the handlers, ends with exit status 0, also when migrations failed or tables are
  missing. Exit status 1 occurs only when a fatal precondition fails or an exception
  escapes. Without an escaping exception the process is exactly \<open>script\<close>.
\<close>

theorem exit_status_0_without_escaping_exception:
  "(no_escape x w \<longrightarrow> run x w = script w)
   \<and> (\<not> fatal_precondition_fails w \<and> no_escape x w \<longrightarrow> exit_code (run x w) = 0)
   \<and> (exit_code (run x w) = 1 \<longrightarrow> fatal_precondition_fails w \<or> \<not> no_escape x w)"
proof (intro conjI impI)
  assume "no_escape x w"
  then show "run x w = script w" by (rule run_no_escape)
next
  assume "\<not> fatal_precondition_fails w \<and> no_escape x w"
  then show "exit_code (run x w) = 0"
    using run_no_escape [of x w] by (simp add: exit_code_script)
next
  assume e: "exit_code (run x w) = 1"
  show "fatal_precondition_fails w \<or> \<not> no_escape x w"
  proof (rule ccontr)
    assume "\<not> (fatal_precondition_fails w \<or> \<not> no_escape x w)"
    then have "exit_code (run x w) = 0"
      using run_no_escape [of x w] by (simp add: exit_code_script)
    then show False using e by simp
  qed
qed

theorem exit_status_0_without_escaping_exception_witness:
  "no_escape no_escapes world_failed_and_missing
   \<and> \<not> fatal_precondition_fails world_failed_and_missing
   \<and> snd (run_migrations world_failed_and_missing (db_params ''abcxyz'' ''service-role-secret'')
            [''001_a.sql'', ''002_b.sql''] ([], [])) = [''002_b.sql'']
   \<and> snd (verify_tables world_failed_and_missing (db_params ''abcxyz'' ''service-role-secret''))
       = [''articles'', ''workers'']
   \<and> run no_escapes world_failed_and_missing = script world_failed_and_missing
   \<and> exit_code (run no_escapes world_failed_and_missing) = 0
   \<and> exit_code (run no_escapes world_probe_fails) = 1
   \<and> fatal_precondition_fails world_probe_fails"
proof -
  note T1 = exit_status_0_without_escaping_exception [of no_escapes world_failed_and_missing]
  note T2 = exit_status_0_without_escaping_exception [of no_escapes world_probe_fails]
  have n: "no_escape no_escapes world_failed_and_missing" "no_escape no_escapes world_probe_fails"
    by (rule no_escape_no_escapes)+
  have 2: "snd (run_migrations world_failed_and_missing (db_params ''abcxyz'' ''service-role-secret'')
            [''001_a.sql'', ''002_b.sql''] ([], [])) = [''002_b.sql'']"
    by (simp only: failed_run_migrations failed_world_failed_and_missing)
  have 3: "snd (verify_tables world_failed_and_missing (db_params ''abcxyz'' ''service-role-secret''))
       = [''articles'', ''workers'']"
    by (rule missing_world_failed_and_missing)
  have a: "run no_escapes world_failed_and_missing = script world_failed_and_missing"
          "exit_code (run no_escapes world_failed_and_missing) = 0"
    using T1 n(1) not_fatal_world_failed_and_missing by blast+
  have s: "exit_code (script world_probe_fails) = 1"
    by (simp add: example_worlds script_def truthy_def extract_project_ref_def)
  have "run no_escapes world_probe_fails = script world_probe_fails"
    using T2 n(2) by blast
  then have b: "exit_code (run no_escapes world_probe_fails) = 1" using s by simp
  then have c: "fatal_precondition_fails world_probe_fails" using T2 n(2) by blast
  show ?thesis using n(1) not_fatal_world_failed_and_missing 2 3 a b c by blast
qed

text \<open>
  The claim as first stated fails: the example world passes every fatal precondition, and
  the process still ends with status 1 when the verification's \<open>psycopg2.connect\<close> raises
  an exception that is not a driver error, when the name \<open>002_b.sql\<close> cannot be printed,
  or when \<open>load_dotenv\<close> raises.
\<close>

theorem exit_status_claim_counterexample:
  "\<not> fatal_precondition_fails example_world
   \<and> exit_code (run escapes_verification_raises example_world) = 1
   \<and> exit_code (run escapes_unprintable_name example_world) = 1
   \<and> exit_code (run escapes_load_dotenv example_world) = 1"
proof -
  have a: "exit_code (run escapes_verification_raises example_world) = 1"
    by (simp add: run_def Let_def run_and_report_x_def verify_tables_x_def run_migration_def
        escapes_verification_raises_def no_escapes_def example_world_def truthy_def
        extract_project_ref_def glob_sql_def)
  have b: "exit_code (run escapes_unprintable_name example_world) = 1"
    by (simp add: run_def Let_def run_and_report_x_def run_migration_def
        escapes_unprintable_name_def no_escapes_def example_world_def truthy_def
        extract_project_ref_def glob_sql_def)
  have c: "exit_code (run escapes_load_dotenv example_world) = 1"
    by (simp add: run_def escapes_load_dotenv_def no_escapes_def example_world_def)
  show ?thesis using not_fatal_example_world a b c by blast
qed

text \<open>
  Claim C4. The final summary prints the success banner exactly when \<open>missing_tables\<close>
  and \<open>failed_migrations\<close> are both empty, and the error banner otherwise. When
  \<open>failed_migrations\<close> is not empty it prints the line that names every failed file, and
  when \<open>missing_tables\<close> is not empty the line that names every missing table. In a run
  that reaches the migrations, the summary is the end of the output, computed from the two
  lists built before it, and the success banner appears nowhere else.
\<close>

theorem final_summary_banners:
  "(success_banner \<in> set (final_summary missing_tables failed_migrations)
      \<longleftrightarrow> missing_tables = [] \<and> failed_migrations = [])
   \<and> (error_banner \<in> set (final_summary missing_tables failed_migrations)
      \<longleftrightarrow> \<not> (missing_tables = [] \<and> failed_migrations = []))
   \<and> (failed_migrations \<noteq> [] \<longrightarrow>
        failed_line failed_migrations \<in> set (final_summary missing_tables failed_migrations) \<and>
        (\<forall>n \<in> set failed_migrations. \<exists>a b. failed_line failed_migrations = a @ n @ b))
   \<and> (missing_tables \<noteq> [] \<longrightarrow>
        missing_line missing_tables \<in> set (final_summary missing_tables failed_migrations) \<and>
        (\<forall>t \<in> set missing_tables. \<exists>a b. missing_line missing_tables = a @ t @ b))
   \<and> (reaches_migrations w url key project_ref entries \<longrightarrow>
        (\<exists>pre. trace (script w) =
           pre @ map Print
             (final_summary (snd (verify_tables w (db_params project_ref key)))
                (snd (run_migrations w (db_params project_ref key)
                        (sort (filter glob_sql entries)) ([], []))))) \<and>
        (Print success_banner \<in> set (trace (script w)) \<longleftrightarrow>
           snd (verify_tables w (db_params project_ref key)) = [] \<and>
           snd (run_migrations w (db_params project_ref key)
                  (sort (filter glob_sql entries)) ([], [])) = []))"
proof (intro conjI impI)
  show "success_banner \<in> set (final_summary missing_tables failed_migrations)
      \<longleftrightarrow> missing_tables = [] \<and> failed_migrations = []"
    by (rule success_banner_in_final_summary)
  show "error_banner \<in> set (final_summary missing_tables failed_migrations)
      \<longleftrightarrow> \<not> (missing_tables = [] \<and> failed_migrations = [])"
    by (rule error_banner_in_final_summary)
next
  assume "failed_migrations \<noteq> []"
  then show "failed_line failed_migrations \<in> set (final_summary missing_tables failed_migrations)"
    by (simp add: final_summary_def)
  show "\<forall>n \<in> set failed_migrations. \<exists>a b. failed_line failed_migrations = a @ n @ b"
  proof
    fix n assume "n \<in> set failed_migrations"
    then obtain a b where "join '', '' failed_migrations = a @ n @ b"
      using in_join by blast
    then have "failed_line failed_migrations = (''Failed migrations: '' @ a) @ n @ b"
      by (simp add: failed_line_def)
    then show "\<exists>a b. failed_line failed_migrations = a @ n @ b" by blast
  qed
next
  assume "missing_tables \<noteq> []"
  then show "missing_line missing_tables \<in> set (final_summary missing_tables failed_migrations)"
    by (simp add: final_summary_def)
  show "\<forall>t \<in> set missing_tables. \<exists>a b. missing_line missing_tables = a @ t @ b"
  proof
    fix t assume "t \<in> set missing_tables"
    then obtain a b where "join '', '' missing_tables = a @ t @ b"
      using in_join by blast
    then have "missing_line missing_tables = (''Missing tables: '' @ a) @ t @ b"
      by (simp add: missing_line_def)
    then show "\<exists>a b. missing_line missing_tables = a @ t @ b" by blast
  qed
next
  assume r: "reaches_migrations w url key project_ref entries"
  show "\<exists>pre. trace (script w) =
           pre @ map Print
             (final_summary (snd (verify_tables w (db_params project_ref key)))
                (snd (run_migrations w (db_params project_ref key)
                        (sort (filter glob_sql entries)) ([], []))))"
    using trace_script_ends_with_summary [OF r] by (simp add: failed_run_migrations)
  show "Print success_banner \<in> set (trace (script w)) \<longleftrightarrow>
           snd (verify_tables w (db_params project_ref key)) = [] \<and>
           snd (run_migrations w (db_params project_ref key)
                  (sort (filter glob_sql entries)) ([], [])) = []"
    using banner_only_in_summary [OF r, of success_banner]
    by (simp add: failed_run_migrations success_banner_in_final_summary)
qed

theorem final_summary_banners_witness:
  "[''002_b.sql''] \<noteq> [] \<and> [''articles'', ''workers''] \<noteq> []
   \<and> success_banner \<notin> set (final_summary [''articles'', ''workers''] [''002_b.sql''])
   \<and> error_banner \<in> set (final_summary [''articles'', ''workers''] [''002_b.sql''])
   \<and> failed_line [''002_b.sql''] \<in> set (final_summary [''articles'', ''workers''] [''002_b.sql''])
   \<and> missing_line [''articles'', ''workers'']
        \<in> set (final_summary [''articles'', ''workers''] [''002_b.sql''])
   \<and> failed_line [''002_b.sql''] = ''Failed migrations: 002_b.sql''
   \<and> missing_line [''articles'', ''workers''] = ''Missing tables: articles, workers''
   \<and> reaches_migrations world_failed_and_missing ''https://abcxyz.supabase.co'' ''service-role-secret''
        ''abcxyz'' [''002_b.sql'', ''notes.txt'', ''001_a.sql'']
   \<and> Print success_banner \<notin> set (trace (script world_failed_and_missing))
   \<and> reaches_migrations example_world ''https://abcxyz.supabase.co'' ''service-role-secret'' ''abcxyz''
        [''002_b.sql'', ''notes.txt'', ''001_a.sql'']
   \<and> success_banner \<in> set (final_summary [] [])
   \<and> Print success_banner \<in> set (trace (script example_world))"
proof -
  note T1 = final_summary_banners
      [where missing_tables = "[''articles'', ''workers'']" and failed_migrations = "[''002_b.sql'']"
         and w = world_failed_and_missing and url = "''https://abcxyz.supabase.co''"
         and key = "''service-role-secret''" and project_ref = "''abcxyz''"
         and entries = "[''002_b.sql'', ''notes.txt'', ''001_a.sql'']"]
  note T2 = final_summary_banners
      [where missing_tables = "[]" and failed_migrations = "[]"
         and w = example_world and url = "''https://abcxyz.supabase.co''"
         and key = "''service-role-secret''" and project_ref = "''abcxyz''"
         and entries = "[''002_b.sql'', ''notes.txt'', ''001_a.sql'']"]
  have n: "[''002_b.sql''] \<noteq> []" "[''articles'', ''workers''] \<noteq> []" by simp_all
  have a: "success_banner \<notin> set (final_summary [''articles'', ''workers''] [''002_b.sql''])"
          "error_banner \<in> set (final_summary [''articles'', ''workers''] [''002_b.sql''])"
          "failed_line [''002_b.sql''] \<in> set (final_summary [''articles'', ''workers''] [''002_b.sql''])"
          "missing_line [''articles'', ''workers'']
             \<in> set (final_summary [''articles'', ''workers''] [''002_b.sql''])"
    using T1 n by blast+
  have l: "failed_line [''002_b.sql''] = ''Failed migrations: 002_b.sql''"
          "missing_line [''articles'', ''workers''] = ''Missing tables: articles, workers''"
    by (simp_all add: failed_line_def missing_line_def)
  have f1: "snd (run_migrations world_failed_and_missing (db_params ''abcxyz'' ''service-role-secret'')
                  (sort (filter glob_sql [''002_b.sql'', ''notes.txt'', ''001_a.sql''])) ([], []))
            \<noteq> []"
    by (simp only: failed_run_migrations sort_example_files failed_world_failed_and_missing) simp
  have b: "Print success_banner \<notin> set (trace (script world_failed_and_missing))"
    using T1 reaches_world_failed_and_missing f1 by blast
  have f2: "snd (run_migrations example_world (db_params ''abcxyz'' ''service-role-secret'')
                  (sort (filter glob_sql [''002_b.sql'', ''notes.txt'', ''001_a.sql''])) ([], []))
            = []"
    by (simp only: failed_run_migrations sort_example_files failed_example_world)
  have c: "success_banner \<in> set (final_summary [] [])"
    using T2 by blast
  have d: "Print success_banner \<in> set (trace (script example_world))"
    using T2 reaches_example_world f2 missing_example_world by blast
  show ?thesis
    using n a l reaches_world_failed_and_missing b reaches_example_world c d by blast
qed

text \<open>
  Claim C5. The files of the migration directory whose names match \<open>*.sql\<close> are attempted
  in the lexicographically sorted order of their names, whatever order the directory
  lists them in: the names the script opens, in the order it opens them, are the sorted
  list of the matching entries. A directory with \<open>002_b.sql\<close> and \<open>001_a.sql\<close> runs
  \<open>001_a.sql\<close> first.
\<close>

theorem migrations_attempted_in_sorted_order:
  assumes "reaches_migrations w url key project_ref entries"
  shows "attempted (trace (script w)) = sort (filter glob_sql entries)
       \<and> sorted (attempted (trace (script w)))
       \<and> set (attempted (trace (script w))) = {n \<in> set entries. glob_sql n}
       \<and> (distinct entries \<longrightarrow> distinct (attempted (trace (script w))))"
  by (simp add: attempted_script [OF assms])

theorem migrations_attempted_in_sorted_order_witness:
  "reaches_migrations example_world ''https://abcxyz.supabase.co'' ''service-role-secret'' ''abcxyz''
     [''002_b.sql'', ''notes.txt'', ''001_a.sql'']
   \<and> attempted (trace (script example_world)) = [''001_a.sql'', ''002_b.sql'']"
proof -
  have "attempted (trace (script example_world))
          = sort (filter glob_sql [''002_b.sql'', ''notes.txt'', ''001_a.sql''])"
    using migrations_attempted_in_sorted_order [OF reaches_example_world] by blast
  then have "attempted (trace (script example_world)) = [''001_a.sql'', ''002_b.sql'']"
    by (simp only: sort_example_files)
  then show ?thesis using reaches_example_world by blast
qed

text \<open>
  Claim C6. Each fatal precondition ends the run with exit status 1 after an error line:
  the environment file is missing; one of the two variables is unset or empty; the project
  reference cannot be taken from the URL; the probe connection raises; the migration
  directory is missing; it holds no \<open>*.sql\<close> file. When the environment file is missing,
  the run makes no database connection at all.
\<close>

theorem fatal_preconditions_exit_with_status_1:
  "(fatal_precondition_fails w \<longrightarrow> exit_code (script w) = 1)
   \<and> (\<not> env_file_exists w \<longrightarrow>
        Print (log_error ''.env.local file not found!'') \<in> set (trace (script w)) \<and>
        connections (trace (script w)) = [])
   \<and> (env_file_exists w \<and> (\<not> truthy (getenv_url w) \<or> \<not> truthy (getenv_key w)) \<longrightarrow>
        Print (log_error ''Missing required environment variables!'') \<in> set (trace (script w)))
   \<and> (env_file_exists w \<and> getenv_url w = Some url \<and> url \<noteq> [] \<and> truthy (getenv_key w) \<and>
        extract_project_ref w url = Inl ex \<longrightarrow>
        Print (log_error ''Could not parse Supabase URL'') \<in> set (trace (script w)))
   \<and> (configured w url key project_ref \<and> probe_connect w = Some e \<longrightarrow>
        Print (log_error (''Could not connect to database: '' @ e)) \<in> set (trace (script w)))
   \<and> (configured w url key project_ref \<and> probe_connect w = None \<and> migration_dir w = None \<longrightarrow>
        Print (log_error ''Migration directory not found: supabase/migrations'')
          \<in> set (trace (script w)))
   \<and> (configured w url key project_ref \<and> probe_connect w = None \<and>
        migration_dir w = Some entries \<and> filter glob_sql entries = [] \<longrightarrow>
        Print (log_error ''No SQL migration files found!'') \<in> set (trace (script w)))"
proof (intro conjI impI)
  assume "fatal_precondition_fails w"
  then show "exit_code (script w) = 1" by (simp add: exit_code_script)
next
  assume a: "\<not> env_file_exists w"
  then show "Print (log_error ''.env.local file not found!'') \<in> set (trace (script w))"
    by (simp add: script_def)
  from a show "connections (trace (script w)) = []"
    using script_not_configured [of w] by simp
next
  assume "env_file_exists w \<and> (\<not> truthy (getenv_url w) \<or> \<not> truthy (getenv_key w))"
  then show "Print (log_error ''Missing required environment variables!'') \<in> set (trace (script w))"
    by (auto simp: script_def missing_variables_def)
next
  assume "env_file_exists w \<and> getenv_url w = Some url \<and> url \<noteq> [] \<and> truthy (getenv_key w) \<and>
        extract_project_ref w url = Inl ex"
  then show "Print (log_error ''Could not parse Supabase URL'') \<in> set (trace (script w))"
    using script_unparseable [of w url ex] by simp
next
  assume "configured w url key project_ref \<and> probe_connect w = Some e"
  then show "Print (log_error (''Could not connect to database: '' @ e)) \<in> set (trace (script w))"
    using script_configured [of w url key project_ref] by simp
next
  assume "configured w url key project_ref \<and> probe_connect w = None \<and> migration_dir w = None"
  then show "Print (log_error ''Migration directory not found: supabase/migrations'')
          \<in> set (trace (script w))"
    using script_configured [of w url key project_ref] by simp
next
  assume "configured w url key project_ref \<and> probe_connect w = None \<and>
        migration_dir w = Some entries \<and> filter glob_sql entries = []"
  then show "Print (log_error ''No SQL migration files found!'') \<in> set (trace (script w))"
    using script_configured [of w url key project_ref] by simp
qed

theorem fatal_preconditions_exit_with_status_1_witness:
  "(fatal_precondition_fails world_no_env_file \<and> \<not> env_file_exists world_no_env_file \<and>
    exit_code (script world_no_env_file) = 1 \<and>
    Print (log_error ''.env.local file not found!'') \<in> set (trace (script world_no_env_file)) \<and>
    connections (trace (script world_no_env_file)) = [])
   \<and> (env_file_exists world_no_key \<and> \<not> truthy (getenv_key world_no_key) \<and>
       fatal_precondition_fails world_no_key \<and> exit_code (script world_no_key) = 1 \<and>
       Print (log_error ''Missing required environment variables!'')
         \<in> set (trace (script world_no_key)))
   \<and> (extract_project_ref world_schemeless_url ''abcxyz.supabase.co'' = Inl AttributeError \<and>
       fatal_precondition_fails world_schemeless_url \<and>
       exit_code (script world_schemeless_url) = 1 \<and>
       Print (log_error ''Could not parse Supabase URL'') \<in> set (trace (script world_schemeless_url)))
   \<and> (configured world_probe_fails ''https://abcxyz.supabase.co'' ''service-role-secret'' ''abcxyz'' \<and>
       fatal_precondition_fails world_probe_fails \<and> exit_code (script world_probe_fails) = 1 \<and>
       Print (log_error ''Could not connect to database: password authentication failed'')
         \<in> set (trace (script world_probe_fails)))
   \<and> (configured world_no_migration_dir ''https://abcxyz.supabase.co'' ''service-role-secret'' ''abcxyz'' \<and>
       fatal_precondition_fails world_no_migration_dir \<and>
       exit_code (script world_no_migration_dir) = 1 \<and>
       Print (log_error ''Migration directory not found: supabase/migrations'')
         \<in> set (trace (script world_no_migration_dir)))
   \<and> (configured world_no_sql_files ''https://abcxyz.supabase.co'' ''service-role-secret'' ''abcxyz'' \<and>
       fatal_precondition_fails world_no_sql_files \<and> exit_code (script world_no_sql_files) = 1 \<and>
       Print (log_error ''No SQL migration files found!'') \<in> set (trace (script world_no_sql_files)))"
proof -
  have 1: "fatal_precondition_fails world_no_env_file \<and> \<not> env_file_exists world_no_env_file"
    by (simp add: example_worlds fatal_precondition_fails_def)
  have 2: "env_file_exists world_no_key \<and> \<not> truthy (getenv_key world_no_key) \<and>
           fatal_precondition_fails world_no_key"
    by (simp add: example_worlds fatal_precondition_fails_def truthy_def)
  have 3: "env_file_exists world_schemeless_url \<and>
           getenv_url world_schemeless_url = Some ''abcxyz.supabase.co'' \<and>
           truthy (getenv_key world_schemeless_url) \<and>
           extract_project_ref world_schemeless_url ''abcxyz.supabase.co'' = Inl AttributeError \<and>
           fatal_precondition_fails world_schemeless_url"
    by (simp add: example_worlds fatal_precondition_fails_def truthy_def extract_project_ref_def)
  have 4: "configured world_probe_fails ''https://abcxyz.supabase.co'' ''service-role-secret'' ''abcxyz'' \<and>
           probe_connect world_probe_fails = Some ''password authentication failed'' \<and>
           fatal_precondition_fails world_probe_fails"
    by (simp add: example_worlds fatal_precondition_fails_def configured_def extract_project_ref_def)
  have 5: "configured world_no_migration_dir ''https://abcxyz.supabase.co'' ''service-role-secret'' ''abcxyz'' \<and>
           probe_connect world_no_migration_dir = None \<and> migration_dir world_no_migration_dir = None \<and>
           fatal_precondition_fails world_no_migration_dir"
    by (simp add: example_worlds fatal_precondition_fails_def configured_def extract_project_ref_def)
  have 6: "configured world_no_sql_files ''https://abcxyz.supabase.co'' ''service-role-secret'' ''abcxyz'' \<and>
           probe_connect world_no_sql_files = None \<and>
           migration_dir world_no_sql_files = Some [''notes.txt''] \<and>
           filter glob_sql [''notes.txt''] = [] \<and>
           fatal_precondition_fails world_no_sql_files"
    by (simp add: example_worlds fatal_precondition_fails_def configured_def extract_project_ref_def glob_sql_def)
  note T = fatal_preconditions_exit_with_status_1
  have a: "exit_code (script world_no_env_file) = 1 \<and>
    Print (log_error ''.env.local file not found!'') \<in> set (trace (script world_no_env_file)) \<and>
    connections (trace (script world_no_env_file)) = []"
    using 1 T [of world_no_env_file] by blast
  have b: "exit_code (script world_no_key) = 1 \<and>
       Print (log_error ''Missing required environment variables!'')
         \<in> set (trace (script world_no_key))"
    using 2 T [of world_no_key] by blast
  have c: "exit_code (script world_schemeless_url) = 1 \<and>
       Print (log_error ''Could not parse Supabase URL'') \<in> set (trace (script world_schemeless_url))"
    using 3 T [of world_schemeless_url "''abcxyz.supabase.co''" AttributeError] by blast
  have d: "exit_code (script world_probe_fails) = 1 \<and>
       Print (log_error (''Could not connect to database: '' @ ''password authentication failed''))
         \<in> set (trace (script world_probe_fails))"
    using 4 T [of world_probe_fails "''https://abcxyz.supabase.co''" _ "''service-role-secret''"
                  "''abcxyz''" "''password authentication failed''"] by blast
  have e: "exit_code (script world_no_migration_dir) = 1 \<and>
       Print (log_error ''Migration directory not found: supabase/migrations'')
         \<in> set (trace (script world_no_migration_dir))"
    using 5 T [of world_no_migration_dir "''https://abcxyz.supabase.co''" _ "''service-role-secret''"
                  "''abcxyz''"] by blast
  have f: "exit_code (script world_no_sql_files) = 1 \<and>
       Print (log_error ''No SQL migration files found!'') \<in> set (trace (script world_no_sql_files))"
    using 6 T [of world_no_sql_files "''https://abcxyz.supabase.co''" _ "''service-role-secret''"
                  "''abcxyz''" _ "[''notes.txt'']"] by blast
  have d': "''Could not connect to database: '' @ ''password authentication failed'' =
            ''Could not connect to database: password authentication failed''" by simp
  show ?thesis
    using 1 2 3 4 5 6 a b c d e f unfolding d' by blast
qed

text \<open>
  Claim C7. When the environment gives both values, non-empty, and the parse of the URL
  yields a hostname, the project reference is the first dot-separated label of that
  hostname, that is, its longest prefix without a dot: it is what the script logs as the
  project reference and what every connection uses in its user name. For
  \<open>https://abcxyz.supabase.co\<close>, whose hostname is \<open>abcxyz.supabase.co\<close>, it is \<open>abcxyz\<close>.
\<close>

theorem project_ref_is_first_hostname_label:
  assumes "env_file_exists w"
      and "getenv_url w = Some url" and "url \<noteq> []"
      and "getenv_key w = Some key" and "key \<noteq> []"
      and "urlparse_hostname w url = Hostname (Some hostname)"
  shows "extract_project_ref w url = Inr (takeWhile (\<lambda>c. c \<noteq> CHR ''.'') hostname)
       \<and> take 2 (trace (script w)) =
           [Print title_banner,
            Print (log_info (''Project Reference: '' @ takeWhile (\<lambda>c. c \<noteq> CHR ''.'') hostname))]
       \<and> set (connections (trace (script w)))
           \<subseteq> {db_params (takeWhile (\<lambda>c. c \<noteq> CHR ''.'') hostname) key}
       \<and> CHR ''.'' \<notin> set (takeWhile (\<lambda>c. c \<noteq> CHR ''.'') hostname)
       \<and> (hostname = takeWhile (\<lambda>c. c \<noteq> CHR ''.'') hostname \<or>
          (\<exists>rest. hostname = takeWhile (\<lambda>c. c \<noteq> CHR ''.'') hostname @ CHR ''.'' # rest))"
proof -
  let ?label = "takeWhile (\<lambda>c. c \<noteq> CHR ''.'') hostname"
  have r: "extract_project_ref w url = Inr ?label"
    using assms(6) by (rule extract_project_ref_hostname)
  have c: "configured w url key ?label"
    using assms r by (simp add: configured_def)
  have "take 2 (trace (script w)) = [Print title_banner, Print (log_info (''Project Reference: '' @ ?label))]"
    by (simp add: script_configured [OF c] before_probe_def split: option.split)
  then show ?thesis
    using r connections_script_configured [OF c] first_label_spec [of "CHR ''.''" hostname]
    by blast
qed

theorem project_ref_is_first_hostname_label_witness:
  "env_file_exists example_world
   \<and> getenv_url example_world = Some ''https://abcxyz.supabase.co''
   \<and> getenv_key example_world = Some ''service-role-secret''
   \<and> urlparse_hostname example_world ''https://abcxyz.supabase.co'' = Hostname (Some ''abcxyz.supabase.co'')
   \<and> extract_project_ref example_world ''https://abcxyz.supabase.co'' = Inr ''abcxyz''
   \<and> take 2 (trace (script example_world)) =
           [Print title_banner, Print (log_info ''Project Reference: abcxyz'')]"
proof -
  have h: "env_file_exists example_world"
    "getenv_url example_world = Some ''https://abcxyz.supabase.co''"
    "''https://abcxyz.supabase.co'' \<noteq> []"
    "getenv_key example_world = Some ''service-role-secret''"
    "''service-role-secret'' \<noteq> []"
    "urlparse_hostname example_world ''https://abcxyz.supabase.co'' = Hostname (Some ''abcxyz.supabase.co'')"
    by (simp_all add: example_world_def)
  have l: "takeWhile (\<lambda>c. c \<noteq> CHR ''.'') ''abcxyz.supabase.co'' = ''abcxyz''" by simp
  have a: "extract_project_ref example_world ''https://abcxyz.supabase.co'' = Inr ''abcxyz''"
    using project_ref_is_first_hostname_label [OF h] unfolding l by blast
  have b: "take 2 (trace (script example_world)) =
           [Print title_banner, Print (log_info (''Project Reference: '' @ ''abcxyz''))]"
    using project_ref_is_first_hostname_label [OF h] unfolding l by blast
  show ?thesis using h a b by simp
qed

text \<open>
  Claim C8. Every \<open>psycopg2.connect\<close> of a run (the probe, the one of each migration file
  and the one of the verification) is called with the same parameters: the fixed pooler
  host, port 6543, database \<open>postgres\<close>, user \<open>postgres.\<close> followed by the project
  reference, the service-role key as password. They are computed once, from the two
  environment values, and nothing changes them afterwards.
\<close>

theorem every_connection_uses_the_derived_parameters:
  assumes "Connect q \<in> set (trace (script w))"
  shows "\<exists>url key project_ref.
           getenv_url w = Some url \<and> getenv_key w = Some key \<and>
           extract_project_ref w url = Inr project_ref \<and>
           q = \<lparr>host = ''aws-0-us-west-1.pooler.supabase.com'', port = 6543,
                database = ''postgres'', user = ''postgres.'' @ project_ref,
                password = key, sslmode = ''require''\<rparr>"
proof -
  have q: "q \<in> set (connections (trace (script w)))"
    using assms by (simp add: in_connections)
  have "\<not> (\<not> env_file_exists w \<or> \<not> truthy (getenv_url w) \<or> \<not> truthy (getenv_key w))"
  proof
    assume "\<not> env_file_exists w \<or> \<not> truthy (getenv_url w) \<or> \<not> truthy (getenv_key w)"
    from script_not_configured [OF this] q show False by simp
  qed
  then have e: "env_file_exists w" and u: "truthy (getenv_url w)" and k: "truthy (getenv_key w)"
    by blast+
  obtain url where url: "getenv_url w = Some url" "url \<noteq> []"
    using u by (auto simp: truthy_def split: option.splits)
  obtain key where key: "getenv_key w = Some key" "key \<noteq> []"
    using k by (auto simp: truthy_def split: option.splits)
  obtain project_ref where r: "extract_project_ref w url = Inr project_ref"
    using q script_unparseable [OF e url k] by (cases "extract_project_ref w url") auto
  have "configured w url key project_ref"
    using e url key r by (simp add: configured_def)
  then have "q = db_params project_ref key"
    using connections_script_configured q by blast
  then show ?thesis using url key r by (simp add: db_params_def)
qed

theorem every_connection_uses_the_derived_parameters_witness:
  "Connect (db_params ''abcxyz'' ''service-role-secret'') \<in> set (trace (script example_world)) \<and>
   (\<exists>url key project_ref.
           getenv_url example_world = Some url \<and> getenv_key example_world = Some key \<and>
           extract_project_ref example_world url = Inr project_ref \<and>
           db_params ''abcxyz'' ''service-role-secret'' =
             \<lparr>host = ''aws-0-us-west-1.pooler.supabase.com'', port = 6543,
                database = ''postgres'', user = ''postgres.'' @ project_ref,
                password = key, sslmode = ''require''\<rparr>)"
proof -
  have h: "Connect (db_params ''abcxyz'' ''service-role-secret'') \<in> set (trace (script example_world))"
    by code_simp
  show ?thesis
    using h every_connection_uses_the_derived_parameters [OF h] by simp
qed

text \<open>
  Claim C9. After any number \<open>k\<close> of passes of the migration loop, and after the loop,
  \<open>failed_migrations\<close> is a subsequence of the sorted list of migration files: it holds
  the failing names among the first \<open>k\<close> files in the order of their attempts, and, the
  entries of a directory being distinct, each name at most once. The whole loop is the
  remaining passes started from that state.
\<close>

theorem failed_migrations_is_subsequence:
  assumes "files = sort (filter glob_sql entries)"
  shows "snd (run_migrations w p (take k files) ([], [])) = filter (migration_fails w) (take k files)
       \<and> subseq (snd (run_migrations w p (take k files) ([], []))) files
       \<and> (distinct entries \<longrightarrow> distinct (snd (run_migrations w p (take k files) ([], []))))
       \<and> run_migrations w p files ([], []) =
           run_migrations w p (drop k files) (run_migrations w p (take k files) ([], []))
       \<and> subseq (snd (run_migrations w p files ([], []))) files
       \<and> (distinct entries \<longrightarrow> distinct (snd (run_migrations w p files ([], []))))"
proof (intro conjI)
  have d: "distinct entries \<longrightarrow> distinct files" using assms by simp
  have "prefix (take k files) files" by (rule take_is_prefix)
  then have "subseq (take k files) files" by (rule prefix_imp_subseq)
  then have s: "subseq (filter (migration_fails w) (take k files)) files"
    using subseq_filter_left [of "migration_fails w" "take k files"]
    by (rule subseq_order.trans [rotated])
  show "snd (run_migrations w p (take k files) ([], [])) = filter (migration_fails w) (take k files)"
    by (rule failed_run_migrations)
  show "subseq (snd (run_migrations w p (take k files) ([], []))) files"
    using s by (simp add: failed_run_migrations)
  show "distinct entries \<longrightarrow> distinct (snd (run_migrations w p (take k files) ([], [])))"
    using d by (simp add: failed_run_migrations)
  show "run_migrations w p files ([], []) =
           run_migrations w p (drop k files) (run_migrations w p (take k files) ([], []))"
    by (rule run_migrations_steps)
  show "subseq (snd (run_migrations w p files ([], []))) files"
    by (simp add: failed_run_migrations)
  show "distinct entries \<longrightarrow> distinct (snd (run_migrations w p files ([], [])))"
    using d by (simp add: failed_run_migrations)
qed

theorem failed_migrations_is_subsequence_witness:
  "sort (filter glob_sql [''003_c.sql'', ''001_a.sql'', ''002_b.sql''])
     = [''001_a.sql'', ''002_b.sql'', ''003_c.sql'']
   \<and> distinct [''003_c.sql'', ''001_a.sql'', ''002_b.sql'']
   \<and> snd (run_migrations world_two_failures example_params [''001_a.sql''] ([], [])) = [''001_a.sql'']
   \<and> snd (run_migrations world_two_failures example_params
            [''001_a.sql'', ''002_b.sql'', ''003_c.sql''] ([], []))
       = [''001_a.sql'', ''002_b.sql'']
   \<and> subseq [''001_a.sql'', ''002_b.sql''] [''001_a.sql'', ''002_b.sql'', ''003_c.sql'']
   \<and> distinct (snd (run_migrations world_two_failures example_params
                      [''001_a.sql'', ''002_b.sql'', ''003_c.sql''] ([], [])))"
proof -
  have d: "distinct [''003_c.sql'', ''001_a.sql'', ''002_b.sql'']" by simp
  have t: "take 1 [''001_a.sql'', ''002_b.sql'', ''003_c.sql''] = [''001_a.sql'']"
          "take 3 [''001_a.sql'', ''002_b.sql'', ''003_c.sql'']
             = [''001_a.sql'', ''002_b.sql'', ''003_c.sql'']" by simp_all
  have f: "filter (migration_fails world_two_failures) [''001_a.sql'', ''002_b.sql'', ''003_c.sql'']
          = [''001_a.sql'', ''002_b.sql'']"
    by (simp add: migration_fails_def world_two_failures_def example_world_def)
  have g: "filter (migration_fails world_two_failures) [''001_a.sql''] = [''001_a.sql'']"
    by (simp add: migration_fails_def world_two_failures_def example_world_def)
  have a: "snd (run_migrations world_two_failures example_params [''001_a.sql''] ([], [])) = [''001_a.sql'']"
    using failed_migrations_is_subsequence
            [OF refl, of world_two_failures example_params 1 "[''003_c.sql'', ''001_a.sql'', ''002_b.sql'']"]
    by (simp only: sort_three_files t g)
  have b: "snd (run_migrations world_two_failures example_params
                  [''001_a.sql'', ''002_b.sql'', ''003_c.sql''] ([], []))
            = [''001_a.sql'', ''002_b.sql'']"
    using failed_migrations_is_subsequence
            [OF refl, of world_two_failures example_params 3 "[''003_c.sql'', ''001_a.sql'', ''002_b.sql'']"]
    by (simp only: sort_three_files t f)
  have c: "subseq (snd (run_migrations world_two_failures example_params
                  [''001_a.sql'', ''002_b.sql'', ''003_c.sql''] ([], [])))
             [''001_a.sql'', ''002_b.sql'', ''003_c.sql'']"
    using failed_migrations_is_subsequence
            [OF refl, of world_two_failures example_params 3 "[''003_c.sql'', ''001_a.sql'', ''002_b.sql'']"]
    by (simp only: sort_three_files t f) blast
  have e: "distinct (snd (run_migrations world_two_failures example_params
                      [''001_a.sql'', ''002_b.sql'', ''003_c.sql''] ([], [])))"
    using d failed_migrations_is_subsequence
            [OF refl, of world_two_failures example_params 3
               "[''003_c.sql'', ''001_a.sql'', ''002_b.sql'']"]
    unfolding sort_three_files by blast
  show ?thesis using sort_three_files d a b c e by simp
qed


text \<open>
  Claim C10. When the parse of the URL yields no hostname (as for the scheme-less
  \<open>abcxyz.supabase.co\<close>), \<open>.split\<close> on \<open>None\<close> raises inside the \<open>try\<close>; the bare \<open>except\<close>
  catches it, prints its two lines and exits with status 1. No connection is attempted,
  although both environment values are present and non-empty.
\<close>

theorem url_without_hostname_exits_1:
  assumes "env_file_exists w"
      and "getenv_url w = Some url" and "url \<noteq> []"
      and "getenv_key w = Some key" and "key \<noteq> []"
      and "urlparse_hostname w url = Hostname None"
  shows "extract_project_ref w url = Inl AttributeError
       \<and> script w = \<lparr>trace = [Print title_banner,
                               Print (log_error ''Could not parse Supabase URL''),
                               Print ''URL should be in format: https://yourproject.supabase.co''],
                      exit_code = 1\<rparr>
       \<and> connections (trace (script w)) = []"
proof -
  have r: "extract_project_ref w url = Inl AttributeError"
    using assms(6) by (simp add: extract_project_ref_def)
  have k: "truthy (getenv_key w)" using assms by (simp add: truthy_def)
  show ?thesis
    using r script_unparseable [OF assms(1) assms(2) assms(3) k r] by simp
qed

theorem url_without_hostname_exits_1_witness:
  "env_file_exists world_schemeless_url
   \<and> getenv_url world_schemeless_url = Some ''abcxyz.supabase.co''
   \<and> getenv_key world_schemeless_url = Some ''service-role-secret''
   \<and> urlparse_hostname world_schemeless_url ''abcxyz.supabase.co'' = Hostname None
   \<and> exit_code (script world_schemeless_url) = 1
   \<and> connections (trace (script world_schemeless_url)) = []"
proof -
  have h: "env_file_exists world_schemeless_url"
    "getenv_url world_schemeless_url = Some ''abcxyz.supabase.co''"
    "''abcxyz.supabase.co'' \<noteq> []"
    "getenv_key world_schemeless_url = Some ''service-role-secret''"
    "''service-role-secret'' \<noteq> []"
    "urlparse_hostname world_schemeless_url ''abcxyz.supabase.co'' = Hostname None"
    by (simp_all add: example_worlds)
  show ?thesis
    using h url_without_hostname_exits_1 [OF h] by simp
qed

end
